theory Spec2Isabelle
  imports Main
begin

section \<open>Data model\<close>

text \<open>
  The interfaces of \<^verbatim>\<open>extraction.interface.ts\<close>. Strings are byte strings (the UTF-8
  bytes of the JavaScript string). Optional properties are \<open>option\<close>s: \<open>None\<close> is
  \<^verbatim>\<open>undefined\<close>, a property that is not there; a data property that is there and
  \<^verbatim>\<open>null\<close> is \<open>Some JNull\<close>.
\<close>

record TableData =
  tableName :: string
  headers :: "string list"
  rows :: "string list list"

record ExtractionResult =
  tables :: "TableData list"
  summary :: string

text \<open>
  The interfaces are erased at run time: what the engine replies, what \<^verbatim>\<open>JSON.parse\<close>
  returns and what a request body holds is any JSON value, cast to \<^verbatim>\<open>ExtractionResult\<close>
  unchecked. So the data of a job is a JSON value (numbers are integers here), and
  \<open>json_of\<close> is the value that an \<^verbatim>\<open>ExtractionResult\<close> is.
\<close>

datatype json =
    JNull
  | JBool bool
  | JNum int
  | JStr string
  | JArr "json list"
  | JObj "(string \<times> json) list"

definition table_json :: "TableData \<Rightarrow> json" where
  "table_json t =
     JObj [(''tableName'', JStr (tableName t)),
           (''headers'', JArr (map JStr (headers t))),
           (''rows'', JArr (map (\<lambda>r. JArr (map JStr r)) (rows t)))]"

definition json_of :: "ExtractionResult \<Rightarrow> json" where
  "json_of r =
     JObj [(''tables'', JArr (map table_json (tables r))), (''summary'', JStr (summary r))]"

text \<open>JavaScript truthiness of a JSON value, as in \<^verbatim>\<open>!body.data\<close> and \<^verbatim>\<open>status.data || null\<close>.\<close>

fun js_truthy :: "json \<Rightarrow> bool" where
  "js_truthy JNull = False"
| "js_truthy (JBool b) = b"
| "js_truthy (JNum n) = (n \<noteq> 0)"
| "js_truthy (JStr s) = (s \<noteq> [])"
| "js_truthy (JArr vs) = True"
| "js_truthy (JObj fs) = True"

definition or_null :: "json option \<Rightarrow> json" where
  "or_null v = (case v of None \<Rightarrow> JNull | Some x \<Rightarrow> if js_truthy x then x else JNull)"

text \<open>A value as the nullable column \<^verbatim>\<open>result\<close> holds it: \<^verbatim>\<open>null\<close> is no value.\<close>

definition nullable :: "json \<Rightarrow> json option" where
  "nullable v = (if v = JNull then None else Some v)"

datatype job_status = Pending | Processing | Completed | Failed

record ExtractionResponse =
  success :: bool
  message :: string
  job_id :: "string option"
  file_url :: "string option"
  data :: "json option"

text \<open>\<^verbatim>\<open>ExtractionStatusResponse\<close>; its fields carry the prefix \<open>s_\<close>.\<close>

record ExtractionStatusResponse =
  s_job_id :: string
  s_status :: job_status
  s_file_url :: "string option"
  s_data :: "json option"
  s_error :: "string option"

text \<open>
  The value type of \<^verbatim>\<open>jobResultsMap\<close>; its fields carry the prefix \<open>c_\<close>. TypeScript
  narrows \<^verbatim>\<open>status\<close> to \<^verbatim>\<open>'completed' | 'failed'\<close> statically; here the field has the
  full status type, and which statuses are ever stored is a property of the writes.
\<close>

record cache_entry =
  c_status :: job_status
  c_fileUrl :: string
  c_fileName :: "string option"
  c_data :: "json option"
  c_error :: "string option"

text \<open>
  \<^verbatim>\<open>ExtractedFile\<close> of \<^verbatim>\<open>extraction-queries.ts\<close> (the columns every query selects; the
  source's \<^verbatim>\<open>id\<close> is \<open>jid\<close> here), and a row of the table \<^verbatim>\<open>extraction_jobs\<close>, which has
  the column \<^verbatim>\<open>user_id\<close> besides.
\<close>

record ExtractedFile =
  jid :: string
  fileName :: string
  fileUrl :: string
  status :: job_status
  createdAt :: nat
  updatedAt :: nat
  error :: "string option"
  result :: "json option"

record job_row =
  userId :: string
  columns :: ExtractedFile

text \<open>
  A buffer is the text of a JSON value or any other content. \<open>Json v\<close> stands for
  bytes that are valid JSON text for the value \<open>v\<close>, among them
  \<^verbatim>\<open>Buffer.from(JSON.stringify(v, null, 2))\<close>; \<^verbatim>\<open>JSON.parse\<close> gives \<open>v\<close> on them, whatever its
  shape. \<open>Raw s\<close> stands for bytes that are not JSON text (an uploaded document, a
  damaged object), on which \<^verbatim>\<open>JSON.parse\<close> throws a \<^verbatim>\<open>SyntaxError\<close>.
\<close>

datatype buffer = Raw string | Json json

record s3_object =
  Body :: buffer
  ContentType :: string
  Metadata :: "(string \<times> string) list"

text \<open>
  What JavaScript throws. \<open>JsError message code response\<close> is an \<^verbatim>\<open>Error\<close> with the
  properties the handlers read: \<^verbatim>\<open>error.message\<close>, \<^verbatim>\<open>error.code\<close> and, for an HTTP error
  reply of the engine, \<^verbatim>\<open>error.response\<close> with its \<^verbatim>\<open>status\<close> and \<^verbatim>\<open>data.detail\<close>. The two
  others are the NestJS exceptions the service and the controller throw.
\<close>

record http_reply =
  http_status :: "nat option"
  detail :: "string option"

datatype exn =
    JsError string "string option" "http_reply option"
  | BadRequestException string
  | InternalServerErrorException string

fun err_message :: "exn \<Rightarrow> string" where
  "err_message (JsError m c r) = m"
| "err_message (BadRequestException m) = m"
| "err_message (InternalServerErrorException m) = m"

fun err_code :: "exn \<Rightarrow> string option" where
  "err_code (JsError m c r) = c"
| "err_code (BadRequestException m) = None"
| "err_code (InternalServerErrorException m) = None"

text \<open>
  A NestJS \<^verbatim>\<open>HttpException\<close> has a \<^verbatim>\<open>response\<close> property too (its body, an object with
  neither \<^verbatim>\<open>status\<close> nor \<^verbatim>\<open>data\<close>).
\<close>

fun err_response :: "exn \<Rightarrow> http_reply option" where
  "err_response (JsError m c r) = r"
| "err_response (BadRequestException m) = Some \<lparr>http_status = None, detail = None\<rparr>"
| "err_response (InternalServerErrorException m) = Some \<lparr>http_status = None, detail = None\<rparr>"

text \<open>The multipart form posted to the engine.\<close>

record extract_request =
  form_file :: buffer
  form_filename :: string
  form_contentType :: string
  target_language :: string
  preserve_names :: string

datatype io_event =
    S3Put string
  | S3Head string
  | S3Get string
  | DbInsert string
  | DbSelect string
  | DbUpdate string
  | EnginePost string
  | EngineGet string

datatype log_level = Warn | Err

text \<open>
  The process and its collaborators: the module-level \<^verbatim>\<open>jobResultsMap\<close>, the S3 bucket,
  the table \<^verbatim>\<open>extraction_jobs\<close>, and what the environment decides. \<open>calls\<close> counts
  the calls made to S3 and to the database so far, and \<open>faults\<close> schedules the outcome
  of every such call by its number: \<open>None\<close> lets the call through, \<open>Some m\<close> makes the
  client throw an error with message \<open>m\<close>. \<open>engine_extract\<close> and
  \<open>engine_status\<close> are the replies of the Python service. \<open>trace\<close> records every call
  to a collaborator, \<open>logged\<close> the \<^verbatim>\<open>logger.warn\<close> and \<^verbatim>\<open>logger.error\<close> lines (the
  \<^verbatim>\<open>logger.log\<close> lines and the stack traces are left out). \<open>clock\<close> is \<^verbatim>\<open>Date.now()\<close>,
  \<open>random36\<close> is \<^verbatim>\<open>Math.random().toString(36).substring(7)\<close>, \<open>uuid\<close> is \<^verbatim>\<open>uuidv4()\<close>.
\<close>

record world =
  jobResultsMap :: "string \<rightharpoonup> cache_entry"
  bucket :: "string \<rightharpoonup> s3_object"
  extraction_jobs :: "string \<rightharpoonup> job_row"
  faults :: "nat \<Rightarrow> string option"
  calls :: nat
  engine_extract :: "extract_request \<Rightarrow> exn + json"
  engine_status :: "string \<Rightarrow> exn + ExtractionStatusResponse"
  trace :: "io_event list"
  logged :: "(log_level \<times> string) list"
  clock :: nat
  random36 :: string
  uuid :: string
  bucketName :: string
  TIGRIS_ENDPOINT :: string

section \<open>Asynchronous functions as state transformers with exceptions\<close>

type_synonym 'a io = "world \<Rightarrow> (exn + 'a) \<times> world"

definition return_io :: "'a \<Rightarrow> 'a io" where
  "return_io x = (\<lambda>w. (Inr x, w))"

definition throw_io :: "exn \<Rightarrow> 'a io" where
  "throw_io e = (\<lambda>w. (Inl e, w))"

definition bind_io :: "'a io \<Rightarrow> ('a \<Rightarrow> 'b io) \<Rightarrow> 'b io" where
  "bind_io m f = (\<lambda>w. case m w of (Inl e, w') \<Rightarrow> (Inl e, w') | (Inr x, w') \<Rightarrow> f x w')"

definition seq_io :: "'a io \<Rightarrow> 'b io \<Rightarrow> 'b io" where
  "seq_io m k = bind_io m (\<lambda>_. k)"

definition try_catch :: "'a io \<Rightarrow> (exn \<Rightarrow> 'a io) \<Rightarrow> 'a io" where
  "try_catch m h = (\<lambda>w. case m w of (Inl e, w') \<Rightarrow> h e w' | (Inr x, w') \<Rightarrow> (Inr x, w'))"

definition logger_warn :: "string \<Rightarrow> unit io" where
  "logger_warn m = (\<lambda>w. (Inr (), w\<lparr>logged := logged w @ [(Warn, m)]\<rparr>))"

definition logger_error :: "string \<Rightarrow> unit io" where
  "logger_error m = (\<lambda>w. (Inr (), w\<lparr>logged := logged w @ [(Err, m)]\<rparr>))"

text \<open>
  \<open>outcome w i\<close> is what the schedule holds for the \<open>i\<close>-th coming call. One call to S3
  or to the database is recorded, takes the outcome scheduled for it, and throws when
  that is a fault.
\<close>

definition outcome :: "world \<Rightarrow> nat \<Rightarrow> string option" where
  "outcome w i = faults w (calls w + i)"

definition sent :: "io_event \<Rightarrow> world \<Rightarrow> world" where
  "sent ev w = w\<lparr>calls := Suc (calls w), trace := trace w @ [ev]\<rparr>"

definition client_send :: "io_event \<Rightarrow> unit io" where
  "client_send ev = (\<lambda>w.
     case outcome w 0 of
       None \<Rightarrow> (Inr (), sent ev w)
     | Some m \<Rightarrow> (Inl (JsError m None None), sent ev w))"

section \<open>JavaScript built-ins\<close>

text \<open>
  \<^verbatim>\<open>encodeURIComponent\<close>: every byte of the UTF-8 form that is not an unreserved
  character becomes \<^verbatim>\<open>%XX\<close>. (It throws on a lone surrogate, which a byte string that
  is the UTF-8 form of a well-formed string does not hold.)
\<close>

definition uri_unreserved :: "char \<Rightarrow> bool" where
  "uri_unreserved c \<longleftrightarrow>
     c \<in> set (''ABCDEFGHIJKLMNOPQRSTUVWXYZabcdefghijklmnopqrstuvwxyz0123456789-_.!~*()''
              @ [CHR 0x27])"

definition hex_digit :: "nat \<Rightarrow> char" where
  "hex_digit n = ''0123456789ABCDEF'' ! (n mod 16)"

definition percent_encode :: "char \<Rightarrow> string" where
  "percent_encode c =
     (if uri_unreserved c then [c]
      else [CHR ''%'', hex_digit (of_char c div 16), hex_digit (of_char c mod 16)])"

definition encodeURIComponent :: "string \<Rightarrow> string" where
  "encodeURIComponent s = concat (map percent_encode s)"

text \<open>A number in a template literal: its decimal digits.\<close>

function show_nat :: "nat \<Rightarrow> string" where
  "show_nat n =
     (if n < 10 then [''0123456789'' ! n]
      else show_nat (n div 10) @ [''0123456789'' ! (n mod 10)])"
  by pat_completeness auto
termination
  by (relation "measure id") auto

declare show_nat.simps [simp del]

text \<open>\<^verbatim>\<open>a || b\<close> on strings that may be undefined: the empty string is falsy.\<close>

definition truthy :: "string option \<Rightarrow> bool" where
  "truthy s \<longleftrightarrow> (case s of None \<Rightarrow> False | Some x \<Rightarrow> x \<noteq> [])"

definition or_else :: "string option \<Rightarrow> string \<Rightarrow> string" where
  "or_else s d = (if truthy s then the s else d)"

text \<open>\<^verbatim>\<open>s.replace(/\/$/, '')\<close> and \<^verbatim>\<open>s.replace(pat, '')\<close> (first occurrence only).\<close>

definition strip_trailing_slash :: "string \<Rightarrow> string" where
  "strip_trailing_slash s = (if s \<noteq> [] \<and> last s = CHR ''/'' then butlast s else s)"

fun remove_first :: "string \<Rightarrow> string \<Rightarrow> string" where
  "remove_first pat [] = []"
| "remove_first pat (c # cs) =
     (if take (length pat) (c # cs) = pat then drop (length pat) (c # cs)
      else c # remove_first pat cs)"

definition JSON_parse :: "buffer \<Rightarrow> exn + json" where
  "JSON_parse b =
     (case b of
        Json r \<Rightarrow> Inr r
      | Raw s \<Rightarrow> Inl (JsError ''Unexpected token in JSON'' None None))"

section \<open>The collaborators\<close>

subsection \<open>\<^verbatim>\<open>StorageService\<close>\<close>

text \<open>The URL \<^verbatim>\<open>uploadFile\<close> returns for a key.\<close>

definition object_url :: "world \<Rightarrow> string \<Rightarrow> string" where
  "object_url w key =
     ''https://'' @ bucketName w @ ''.''
     @ remove_first ''https://'' (strip_trailing_slash (TIGRIS_ENDPOINT w)) @ ''/'' @ key"

definition uploadFile :: "string \<Rightarrow> buffer \<Rightarrow> string \<Rightarrow> (string \<times> string) list \<Rightarrow> string io" where
  "uploadFile key buf contentType metadata =
     try_catch
       (bind_io (client_send (S3Put key)) (\<lambda>_ w.
          (Inr (object_url w key),
           w\<lparr>bucket := (bucket w)(key \<mapsto>
                \<lparr>Body = buf, ContentType = contentType, Metadata = metadata\<rparr>)\<rparr>)))
       (\<lambda>e. seq_io (logger_error (''Failed to upload file: '' @ err_message e))
                (throw_io (JsError (''Failed to upload file: '' @ err_message e) None None)))"

text \<open>
  \<^verbatim>\<open>getFileBuffer\<close> with \<^verbatim>\<open>getFileStream\<close> inlined. For a key that is not in the bucket S3
  answers with the error \<^verbatim>\<open>NoSuchKey\<close>.
\<close>

definition NoSuchKey :: string where
  "NoSuchKey = ''The specified key does not exist.''"

definition getFileBuffer :: "string \<Rightarrow> buffer io" where
  "getFileBuffer key =
     try_catch
       (bind_io (client_send (S3Get key)) (\<lambda>_ w.
          case bucket w key of
            None \<Rightarrow> (Inl (JsError NoSuchKey None None), w)
          | Some obj \<Rightarrow> (Inr (Body obj), w)))
       (\<lambda>e. seq_io (logger_error (''Failed to get file: '' @ err_message e))
                (throw_io (JsError (''Failed to get file: '' @ err_message e) None None)))"

text \<open>
  \<^verbatim>\<open>fileExists\<close>: the \<^verbatim>\<open>HeadObject\<close> of a missing key throws \<^verbatim>\<open>NotFound\<close>, which becomes
  \<^verbatim>\<open>false\<close>; any other error is thrown on.
\<close>

definition fileExists :: "string \<Rightarrow> bool io" where
  "fileExists key =
     bind_io (client_send (S3Head key)) (\<lambda>_ w. (Inr (bucket w key \<noteq> None), w))"

subsection \<open>\<^verbatim>\<open>extraction-queries.ts\<close>\<close>

text \<open>The insert of an \<^verbatim>\<open>id\<close> that is in the table violates the primary key.\<close>

definition duplicate_key :: string where
  "duplicate_key = ''duplicate key value violates unique constraint''"

definition createExtractionJob :: "string \<Rightarrow> string \<Rightarrow> string \<Rightarrow> string option \<Rightarrow> ExtractedFile io" where
  "createExtractionJob user name url jobId = (\<lambda>w0.
     let ident = (if truthy jobId then the jobId else uuid w0)
     in bind_io (client_send (DbInsert ident)) (\<lambda>_ w.
          if extraction_jobs w ident \<noteq> None then (Inl (JsError duplicate_key None None), w)
          else
            let row = \<lparr>jid = ident, fileName = name, fileUrl = url, status = Pending,
                       createdAt = clock w, updatedAt = clock w, error = None,
                       result = None\<rparr>
            in (Inr row,
                w\<lparr>extraction_jobs := (extraction_jobs w)(ident \<mapsto>
                     \<lparr>userId = user, columns = row\<rparr>)\<rparr>)) w0)"

text \<open>
  \<^verbatim>\<open>updateExtractionJob\<close>: \<open>res\<close> is \<open>None\<close> for \<^verbatim>\<open>undefined\<close> (the column is left as it
  is), \<open>Some JNull\<close> for \<^verbatim>\<open>null\<close>, \<open>Some v\<close> for a value; \<open>err\<close> is \<open>None\<close> for
  \<^verbatim>\<open>undefined\<close>.
\<close>

definition updateExtractionJob ::
  "string \<Rightarrow> job_status \<Rightarrow> json option \<Rightarrow> string option \<Rightarrow> ExtractedFile option io" where
  "updateExtractionJob jobId st res err =
     bind_io (client_send (DbUpdate jobId)) (\<lambda>_ w.
       case extraction_jobs w jobId of
         None \<Rightarrow> (Inr None, w)
       | Some row \<Rightarrow>
           let c = (columns row)\<lparr>status := st, updatedAt := clock w\<rparr>;
               c1 = (case res of None \<Rightarrow> c | Some r \<Rightarrow> c\<lparr>result := nullable r\<rparr>);
               c2 = (case err of None \<Rightarrow> c1 | Some m \<Rightarrow> c1\<lparr>error := Some m\<rparr>)
           in (Inr (Some c2),
               w\<lparr>extraction_jobs := (extraction_jobs w)(jobId \<mapsto> row\<lparr>columns := c2\<rparr>)\<rparr>))"

definition getExtractionJobById :: "string \<Rightarrow> ExtractedFile option io" where
  "getExtractionJobById jobId =
     bind_io (client_send (DbSelect jobId)) (\<lambda>_ w.
       (Inr (map_option columns (extraction_jobs w jobId)), w))"

subsection \<open>The Python service, through \<^verbatim>\<open>HttpService\<close>\<close>

text \<open>
  The reply of the extraction endpoint is any JSON value: the type parameter of
  \<^verbatim>\<open>post<ExtractionResult>\<close> is not checked, and an empty body arrives as the empty
  string. The reply of the status endpoint is taken to have the shape of
  \<^verbatim>\<open>ExtractionStatusResponse\<close>; the service returns it as it is and never stores it.
\<close>

definition post_extract :: "extract_request \<Rightarrow> json io" where
  "post_extract req = (\<lambda>w.
     (engine_extract w req, w\<lparr>trace := trace w @ [EnginePost (form_filename req)]\<rparr>))"

definition get_status :: "string \<Rightarrow> ExtractionStatusResponse io" where
  "get_status jobId = (\<lambda>w.
     (engine_status w jobId, w\<lparr>trace := trace w @ [EngineGet jobId]\<rparr>))"

section \<open>\<^verbatim>\<open>ExtractionService\<close>\<close>

definition jobResultsMap_set :: "string \<Rightarrow> cache_entry \<Rightarrow> unit io" where
  "jobResultsMap_set jobId e = (\<lambda>w. (Inr (), w\<lparr>jobResultsMap := (jobResultsMap w)(jobId \<mapsto> e)\<rparr>))"

definition jobResultsMap_get :: "string \<Rightarrow> cache_entry option io" where
  "jobResultsMap_get jobId = (\<lambda>w. (Inr (jobResultsMap w jobId), w))"

text \<open>The job id \<^verbatim>\<open>startExtraction\<close> generates in a world.\<close>

definition new_job_id :: "world \<Rightarrow> string" where
  "new_job_id w = ''job_'' @ show_nat (clock w) @ ''_'' @ random36 w"

text \<open>The three key templates of the service and the controller.\<close>

definition original_key :: "string \<Rightarrow> string \<Rightarrow> string" where
  "original_key jobId name = ''originals/'' @ jobId @ ''/'' @ encodeURIComponent name"

definition output_key :: "string \<Rightarrow> string \<Rightarrow> string" where
  "output_key jobId name = ''output/'' @ jobId @ ''/'' @ encodeURIComponent name @ ''.json''"

definition legacy_key :: "string \<Rightarrow> string \<Rightarrow> string" where
  "legacy_key jobId name = ''output/'' @ jobId @ ''/'' @ name @ ''.json''"

text \<open>The exception the handler of \<^verbatim>\<open>startExtraction\<close> throws for what it caught.\<close>

definition extraction_exception :: "exn \<Rightarrow> exn" where
  "extraction_exception e =
     (case err_response e of
        Some r \<Rightarrow> BadRequestException (or_else (detail r) ''Extraction failed'')
      | None \<Rightarrow>
          if err_code e = Some ''ECONNREFUSED'' then
            InternalServerErrorException
              ''Python extraction service is not running. Please start the API service on port 8000.''
          else if err_code e = Some ''ETIMEDOUT'' \<or> err_code e = Some ''ECONNABORTED'' then
            InternalServerErrorException
              ''Request to Python service timed out. Please try again.''
          else InternalServerErrorException ''Document extraction failed'')"

text \<open>The exception the handler of \<^verbatim>\<open>getExtractionStatus\<close> throws for what it caught.\<close>

definition status_exception :: "exn \<Rightarrow> exn" where
  "status_exception e =
     (if (case err_response e of Some r \<Rightarrow> http_status r = Some 404 | None \<Rightarrow> False) then
        BadRequestException ''Job not found''
      else if err_code e = Some ''ECONNREFUSED'' then
        InternalServerErrorException ''Python extraction service is not running.''
      else InternalServerErrorException ''Failed to get extraction status'')"

definition bool_toString :: "bool \<Rightarrow> string" where
  "bool_toString b = (if b then ''true'' else ''false'')"

text \<open>
  \<^verbatim>\<open>extractionResult.tables?.length\<close>, which the service reads for its log line after the
  engine has replied: the property access throws a \<^verbatim>\<open>TypeError\<close> when the reply is
  \<^verbatim>\<open>null\<close>, and on no other JSON value.
\<close>

definition read_tables :: "json \<Rightarrow> unit io" where
  "read_tables v =
     (if v = JNull then
        throw_io (JsError ''Cannot read properties of null (reading 'tables')'' None None)
      else return_io ())"

definition startExtraction ::
  "buffer \<Rightarrow> string \<Rightarrow> string \<Rightarrow> string \<Rightarrow> string \<Rightarrow> bool \<Rightarrow> ExtractionResponse io" where
  "startExtraction fileBuffer name mimeType user targetLanguage preserveNames = (\<lambda>w0.
     let jobId = new_job_id w0
     in try_catch
          (bind_io (uploadFile (original_key jobId name) fileBuffer mimeType
                      [(''userId'', user), (''originalName'', name), (''jobId'', jobId)])
             (\<lambda>originalUrl.
           bind_io (post_extract
                      \<lparr>form_file = fileBuffer, form_filename = name,
                       form_contentType = mimeType, target_language = targetLanguage,
                       preserve_names = bool_toString preserveNames\<rparr>)
             (\<lambda>extractionResult.
           seq_io (read_tables extractionResult)
          (seq_io (uploadFile (output_key jobId name) (Json extractionResult)
                      ''application/json''
                      [(''userId'', user), (''originalName'', name), (''jobId'', jobId)])
          (seq_io (jobResultsMap_set jobId
                      \<lparr>c_status = Completed, c_fileUrl = originalUrl,
                       c_fileName = Some name, c_data = Some extractionResult,
                       c_error = None\<rparr>)
             (return_io
                \<lparr>success = True, message = ''Extraction completed'', job_id = Some jobId,
                 file_url = Some originalUrl, data = Some extractionResult\<rparr>))))))
          (\<lambda>e.
           seq_io (logger_error (''Extraction failed for job '' @ jobId @ '': '' @ err_message e))
          (seq_io (jobResultsMap_set jobId
                      \<lparr>c_status = Failed, c_fileUrl = [], c_fileName = Some name,
                       c_data = None, c_error = Some (err_message e)\<rparr>)
             (throw_io (extraction_exception e))))
          w0)"

text \<open>
  The loop over \<^verbatim>\<open>keysToTry\<close> in \<^verbatim>\<open>getExtractionStatus\<close>. \<open>probe_key\<close> is its body for
  one key, with the \<^verbatim>\<open>try\<close> around it: \<open>Some r\<close> is the \<^verbatim>\<open>return\<close> from inside the loop,
  \<open>None\<close> is \<^verbatim>\<open>continue\<close> or the end of the \<^verbatim>\<open>catch\<close> block, after which the loop goes on.
\<close>

definition probe_key :: "string \<Rightarrow> string \<Rightarrow> string \<Rightarrow> ExtractionStatusResponse option io" where
  "probe_key jobId name outputKey =
     try_catch
       (bind_io (fileExists outputKey) (\<lambda>found.
          if \<not> found then return_io None
          else
            bind_io (getFileBuffer outputKey) (\<lambda>jsonBuffer.
            bind_io (\<lambda>w. (JSON_parse jsonBuffer, w)) (\<lambda>parsed.
            seq_io (jobResultsMap_set jobId
                      \<lparr>c_status = Completed, c_fileUrl = [], c_fileName = Some name,
                       c_data = Some parsed, c_error = None\<rparr>)
              (return_io (Some
                 \<lparr>s_job_id = jobId, s_status = Completed, s_file_url = Some [],
                  s_data = Some parsed, s_error = None\<rparr>))))))
       (\<lambda>s3Error.
          seq_io (logger_warn (''Failed to fetch from S3 with key '' @ outputKey @ '': ''
                                @ err_message s3Error))
            (return_io None))"

primrec probe_keys :: "string \<Rightarrow> string \<Rightarrow> string list \<Rightarrow> ExtractionStatusResponse option io" where
  "probe_keys jobId name [] = return_io None"
| "probe_keys jobId name (outputKey # keys) =
     bind_io (probe_key jobId name outputKey) (\<lambda>r.
       case r of
         Some resp \<Rightarrow> return_io (Some resp)
       | None \<Rightarrow> probe_keys jobId name keys)"

definition getExtractionStatus :: "string \<Rightarrow> ExtractionStatusResponse io" where
  "getExtractionStatus jobId =
     try_catch
       (bind_io (jobResultsMap_get jobId) (\<lambda>cachedResult.
          case cachedResult of
            Some c \<Rightarrow>
              return_io
                \<lparr>s_job_id = jobId, s_status = c_status c, s_file_url = Some (c_fileUrl c),
                 s_data = c_data c, s_error = c_error c\<rparr>
          | None \<Rightarrow>
              bind_io
                (try_catch
                   (bind_io (getExtractionJobById jobId) (\<lambda>dbJob.
                      return_io (map_option fileName dbJob)))
                   (\<lambda>dbError.
                      seq_io (logger_warn (''Failed to get job from DB: '' @ err_message dbError))
                        (return_io None)))
                (\<lambda>name.
              bind_io
                (if truthy name then
                   probe_keys jobId (the name)
                     [output_key jobId (the name), legacy_key jobId (the name)]
                 else return_io None)
                (\<lambda>hit.
              case hit of
                Some resp \<Rightarrow> return_io resp
              | None \<Rightarrow> get_status jobId))))
       (\<lambda>e.
          seq_io (logger_error (''Failed to get extraction status: '' @ err_message e))
            (throw_io (status_exception e)))"

definition updateJobResult :: "string \<Rightarrow> json \<Rightarrow> string \<Rightarrow> string option \<Rightarrow> unit io" where
  "updateJobResult jobId d url name =
     jobResultsMap_set jobId
       \<lparr>c_status = Completed, c_fileUrl = url, c_fileName = name, c_data = Some d,
        c_error = None\<rparr>"

definition getJobFromCache :: "string \<Rightarrow> cache_entry option io" where
  "getJobFromCache jobId = jobResultsMap_get jobId"

section \<open>\<^verbatim>\<open>ExtractionController\<close>\<close>

text \<open>
  The uploaded file (\<^verbatim>\<open>Express.Multer.File\<close>), the form fields of \<^verbatim>\<open>ExtractDocumentDto\<close>
  and the reply of the edit endpoint. \<open>user\<close> below is \<^verbatim>\<open>request.user?.id\<close>.
\<close>

record multer_file =
  file_buffer :: buffer
  originalname :: string
  mimetype :: string

record ExtractDocumentDto =
  dto_target_language :: "string option"
  dto_preserve_names :: "bool option"

record update_response =
  u_success :: bool
  u_message :: string

definition extractDocument ::
  "multer_file option \<Rightarrow> ExtractDocumentDto \<Rightarrow> string option \<Rightarrow> ExtractionResponse io" where
  "extractDocument file extractDto user =
     (case file of
        None \<Rightarrow> throw_io (BadRequestException ''No file uploaded'')
      | Some f \<Rightarrow>
          bind_io (startExtraction (file_buffer f) (originalname f) (mimetype f)
                     (or_else user ''test-user'')
                     (or_else (dto_target_language extractDto) ''en'')
                     (dto_preserve_names extractDto \<noteq> Some False))
            (\<lambda>extractionResult.
          seq_io
            (if truthy (job_id extractionResult) then
               try_catch
                 (seq_io (createExtractionJob (or_else user ''test-user'') (originalname f)
                            (or_else (file_url extractionResult) [])
                            (job_id extractionResult))
                    (return_io ()))
                 (\<lambda>dbError.
                    logger_warn (''Failed to create job record in database: ''
                                 @ err_message dbError))
             else return_io ())
            (return_io extractionResult)))"

text \<open>
  The controller's \<^verbatim>\<open>getExtractionStatus\<close>, which mirrors a terminal status into the
  table. \<^verbatim>\<open>status.data || null\<close> is \<open>or_null (s_data st)\<close>; \<^verbatim>\<open>status.error || undefined\<close>
  drops an empty message.
\<close>

definition controller_getExtractionStatus :: "string \<Rightarrow> ExtractionStatusResponse io" where
  "controller_getExtractionStatus jobId =
     bind_io (getExtractionStatus jobId) (\<lambda>st.
     seq_io
       (if s_status st = Completed \<or> s_status st = Failed then
          try_catch
            (seq_io (updateExtractionJob jobId (s_status st) (Some (or_null (s_data st)))
                       (if truthy (s_error st) then s_error st else None))
               (return_io ()))
            (\<lambda>dbError.
               logger_warn (''Failed to update job record in database: ''
                            @ err_message dbError))
        else return_io ())
       (return_io st))"

text \<open>
  \<^verbatim>\<open>updateExtractionResult\<close>; \<open>body_data\<close> is \<^verbatim>\<open>body.data\<close> (of type \<^verbatim>\<open>any\<close>), \<open>None\<close> when it
  is missing. \<open>no_data\<close> is the check \<^verbatim>\<open>!body.data\<close>.
\<close>

definition no_data :: "json option \<Rightarrow> bool" where
  "no_data v \<longleftrightarrow> (case v of None \<Rightarrow> True | Some d \<Rightarrow> \<not> js_truthy d)"

definition updateExtractionResult :: "string \<Rightarrow> json option \<Rightarrow> update_response io" where
  "updateExtractionResult jobId body_data =
     try_catch
       (if no_data body_data then
          seq_io (logger_error ''No data provided in request body'')
            (throw_io (BadRequestException ''No data provided''))
        else
          (\<lambda>d.
            bind_io (getExtractionJobById jobId) (\<lambda>job0.
            bind_io
              (case job0 of
                 Some j \<Rightarrow> return_io (Some j)
               | None \<Rightarrow>
                   bind_io (getJobFromCache jobId) (\<lambda>cachedJob.
                     case cachedJob of
                       Some c \<Rightarrow>
                         seq_io (createExtractionJob ''unknown'' ''unknown''
                                   (or_else (Some (c_fileUrl c)) []) (Some jobId))
                           (getExtractionJobById jobId)
                     | None \<Rightarrow> return_io None))
              (\<lambda>job1.
            case job1 of
              None \<Rightarrow>
                seq_io (logger_error (''Job not found: '' @ jobId))
                  (throw_io (BadRequestException ''Job not found''))
            | Some job \<Rightarrow>
                seq_io (uploadFile (output_key jobId (fileName job)) (Json d)
                          ''application/json''
                          [(''jobId'', jobId), (''originalName'', fileName job),
                           (''updated'', ''true'')])
               (seq_io (updateExtractionJob jobId Completed (Some d) None)
               (seq_io (updateJobResult jobId d (fileUrl job) (Some (fileName job)))
                  (return_io
                     \<lparr>u_success = True,
                      u_message = ''Extraction result updated successfully''\<rparr>))))))
            (the body_data))
       (\<lambda>e.
          seq_io (logger_error (''Failed to update extraction result for job '' @ jobId @ '': ''
                                @ err_message e))
            (throw_io (BadRequestException
               (''Failed to update extraction result: '' @ err_message e))))"

section \<open>What the properties speak of\<close>

text \<open>The reply and the cache entry of the blob fallback of \<^verbatim>\<open>getExtractionStatus\<close>.\<close>

definition completed_reply :: "string \<Rightarrow> json \<Rightarrow> ExtractionStatusResponse" where
  "completed_reply jobId d =
     \<lparr>s_job_id = jobId, s_status = Completed, s_file_url = Some [], s_data = Some d,
      s_error = None\<rparr>"

definition blob_entry :: "string \<Rightarrow> json \<Rightarrow> cache_entry" where
  "blob_entry name d =
     \<lparr>c_status = Completed, c_fileUrl = [], c_fileName = Some name, c_data = Some d,
      c_error = None\<rparr>"

text \<open>What \<^verbatim>\<open>getExtractionStatus\<close> passes on from the status endpoint of the engine.\<close>

definition remote_reply :: "world \<Rightarrow> string \<Rightarrow> exn + ExtractionStatusResponse" where
  "remote_reply w jobId =
     (case engine_status w jobId of
        Inr st \<Rightarrow> Inr st
      | Inl e \<Rightarrow> Inl (status_exception e))"




section \<open>Concrete runs\<close>

text \<open>
  An empty process in which every call goes through, the engine finds one table, and
  the engine's status endpoint knows no job; the upload of \<^verbatim>\<open>my file.pdf\<close> into it, and
  an edited result.
\<close>

definition result0 :: json where
  "result0 = json_of \<lparr>tables = [\<lparr>tableName = ''Page 1 Table 1'', headers = [''Name'', ''Age''],
                                  rows = [[''Ann'', ''30'']]\<rparr>],
                       summary = ''One table''\<rparr>"

definition result1 :: json where
  "result1 = json_of \<lparr>tables = [\<lparr>tableName = ''Page 1 Table 1'', headers = [''Name'', ''Age''],
                                  rows = [[''Ann'', ''31'']]\<rparr>],
                       summary = ''One table''\<rparr>"

definition not_found :: exn where
  "not_found = JsError ''Request failed with status code 404'' (Some ''ERR_BAD_REQUEST'')
     (Some \<lparr>http_status = Some 404, detail = Some ''Job not found''\<rparr>)"

definition world0 :: world where
  "world0 = \<lparr>jobResultsMap = Map.empty, bucket = Map.empty, extraction_jobs = Map.empty,
     faults = (\<lambda>i. None), calls = 0, engine_extract = (\<lambda>req. Inr result0),
     engine_status = (\<lambda>j. Inl not_found),
     trace = [], logged = [], clock = 1700000000000, random36 = ''k3x9q'',
     uuid = ''123e4567-e89b-42d3-a456-426614174000'', bucketName = ''udayam-files'',
     TIGRIS_ENDPOINT = ''https://t3.storage.dev/''\<rparr>"

definition response0 :: ExtractionResponse where
  "response0 =
     \<lparr>success = True, message = ''Extraction completed'',
      job_id = Some ''job_1700000000000_k3x9q'',
      file_url = Some
        ''https://udayam-files.t3.storage.dev/originals/job_1700000000000_k3x9q/my%20file.pdf'',
      data = Some result0\<rparr>"

definition extract_in :: "world \<Rightarrow> (exn + ExtractionResponse) \<times> world" where
  "extract_in w =
     startExtraction (Raw ''%PDF-1.7'') ''my file.pdf'' ''application/pdf'' ''u1'' ''en'' True w"

definition after_extraction :: world where
  "after_extraction = snd (extract_in world0)"

definition file0 :: multer_file where
  "file0 = \<lparr>file_buffer = Raw ''%PDF-1.7'', originalname = ''my file.pdf'',
             mimetype = ''application/pdf''\<rparr>"

definition dto0 :: ExtractDocumentDto where
  "dto0 = \<lparr>dto_target_language = None, dto_preserve_names = None\<rparr>"

text \<open>The cache entry, the job record and the result object of that job.\<close>

definition entry0 :: cache_entry where
  "entry0 = \<lparr>c_status = Completed,
     c_fileUrl = ''https://udayam-files.t3.storage.dev/originals/job_1700000000000_k3x9q/my%20file.pdf'',
     c_fileName = Some ''my file.pdf'', c_data = Some result0, c_error = None\<rparr>"

definition row0 :: job_row where
  "row0 = \<lparr>userId = ''u1'',
            columns = \<lparr>jid = ''job_1700000000000_k3x9q'', fileName = ''my file.pdf'',
              fileUrl = ''https://udayam-files.t3.storage.dev/originals/job_1700000000000_k3x9q/my%20file.pdf'',
              status = Completed, createdAt = 1700000000000, updatedAt = 1700000004000,
              error = None, result = Some result0\<rparr>\<rparr>"

definition json0 :: s3_object where
  "json0 = \<lparr>Body = Json result0, ContentType = ''application/json'',
             Metadata = [(''userId'', ''u1''), (''originalName'', ''my file.pdf''),
                         (''jobId'', ''job_1700000000000_k3x9q'')]\<rparr>"

text \<open>
  The empty process when the first call (the upload of the original) fails, when the
  engine times out, and when the third call (the insert of the job record) fails.
\<close>

definition world_upload_down :: world where
  "world_upload_down =
     world0\<lparr>faults := (\<lambda>i. if i = 0 then Some ''connect ETIMEDOUT'' else None)\<rparr>"

definition axios_timeout :: exn where
  "axios_timeout = JsError ''timeout of 600000ms exceeded'' (Some ''ECONNABORTED'') None"

definition world_engine_timeout :: world where
  "world_engine_timeout = world0\<lparr>engine_extract := (\<lambda>req. Inl axios_timeout)\<rparr>"

text \<open>The same when the engine refuses the connection, and when it rejects the document.\<close>

definition axios_refused :: exn where
  "axios_refused = JsError ''connect ECONNREFUSED 127.0.0.1:8000'' (Some ''ECONNREFUSED'') None"

definition world_engine_refused :: world where
  "world_engine_refused = world0\<lparr>engine_extract := (\<lambda>req. Inl axios_refused)\<rparr>"

definition axios_rejected :: exn where
  "axios_rejected = JsError ''Request failed with status code 400'' (Some ''ERR_BAD_REQUEST'')
     (Some \<lparr>http_status = Some 400, detail = Some ''Unsupported file type''\<rparr>)"

definition world_engine_rejected :: world where
  "world_engine_rejected = world0\<lparr>engine_extract := (\<lambda>req. Inl axios_rejected)\<rparr>"

text \<open>
  The connection is refused and the error of the client has the code and an empty
  message. The engine answers with an empty body, which the client hands over as the
  empty string. The bucket holds the text \<^verbatim>\<open>null\<close> under the result key of a job that is
  in the table.
\<close>

definition axios_silent :: exn where
  "axios_silent = JsError [] (Some ''ECONNREFUSED'') None"

definition world_engine_silent :: world where
  "world_engine_silent = world0\<lparr>engine_extract := (\<lambda>req. Inl axios_silent)\<rparr>"

definition world_empty_reply :: world where
  "world_empty_reply = world0\<lparr>engine_extract := (\<lambda>req. Inr (JStr []))\<rparr>"

definition world_null_blob :: world where
  "world_null_blob =
     world0\<lparr>extraction_jobs := [''job_1700000000000_k3x9q'' \<mapsto> row0],
            bucket := [''output/job_1700000000000_k3x9q/my%20file.pdf.json'' \<mapsto>
                         json0\<lparr>Body := Json JNull\<rparr>]\<rparr>"

definition world_db_down :: world where
  "world_db_down =
     world0\<lparr>faults := (\<lambda>i. if i = 2 then Some ''Connection terminated unexpectedly'' else None)\<rparr>"

text \<open>
  The process after a restart (an empty cache), with the record of the job in the table
  and its result in the bucket: under the current key, under the legacy key, or not at
  all.
\<close>

definition world_restarted :: world where
  "world_restarted =
     world0\<lparr>extraction_jobs := [''job_1700000000000_k3x9q'' \<mapsto> row0],
            bucket := [''output/job_1700000000000_k3x9q/my%20file.pdf.json'' \<mapsto> json0]\<rparr>"

definition world_legacy :: world where
  "world_legacy =
     world0\<lparr>extraction_jobs := [''job_1700000000000_k3x9q'' \<mapsto> row0],
            bucket := [''output/job_1700000000000_k3x9q/my file.pdf.json'' \<mapsto> json0]\<rparr>"

definition world_record_only :: world where
  "world_record_only = world0\<lparr>extraction_jobs := [''job_1700000000000_k3x9q'' \<mapsto> row0]\<rparr>"

text \<open>
  The restarted process when the third call from now (in an edit: the update of the
  record) is going to fail, and when the second (the upload of the new result) is; and
  the process that still has the job in its cache, when the third call is going to
  fail.
\<close>

definition world_edit_db_down :: world where
  "world_edit_db_down =
     world_restarted\<lparr>faults :=
       (\<lambda>i. if i = 2 then Some ''Connection terminated unexpectedly'' else None)\<rparr>"

definition world_edit_upload_down :: world where
  "world_edit_upload_down =
     world_restarted\<lparr>faults := (\<lambda>i. if i = 1 then Some ''connect ETIMEDOUT'' else None)\<rparr>"

definition world_cached_db_down :: world where
  "world_cached_db_down =
     world_edit_db_down\<lparr>jobResultsMap := [''job_1700000000000_k3x9q'' \<mapsto> entry0]\<rparr>"

section \<open>Running the collaborators\<close>

lemmas monad_defs = return_io_def throw_io_def bind_io_def seq_io_def try_catch_def

lemma sent_fields [simp]:
  "trace (sent ev w) = trace w @ [ev]"
  "calls (sent ev w) = Suc (calls w)"
  "faults (sent ev w) = faults w"
  "jobResultsMap (sent ev w) = jobResultsMap w"
  "bucket (sent ev w) = bucket w"
  "extraction_jobs (sent ev w) = extraction_jobs w"
  "logged (sent ev w) = logged w"
  "engine_extract (sent ev w) = engine_extract w"
  "engine_status (sent ev w) = engine_status w"
  "clock (sent ev w) = clock w"
  "bucketName (sent ev w) = bucketName w"
  "TIGRIS_ENDPOINT (sent ev w) = TIGRIS_ENDPOINT w"
  by (simp_all add: sent_def)

lemma outcome_sent [simp]: "outcome (sent ev w) i = outcome w (Suc i)"
  by (simp add: outcome_def sent_def)

lemma outcome_update [simp]:
  "outcome (w\<lparr>trace := t\<rparr>) i = outcome w i"
  "outcome (w\<lparr>bucket := b\<rparr>) i = outcome w i"
  "outcome (w\<lparr>logged := l\<rparr>) i = outcome w i"
  "outcome (w\<lparr>jobResultsMap := c\<rparr>) i = outcome w i"
  "outcome (w\<lparr>extraction_jobs := j\<rparr>) i = outcome w i"
  by (simp_all add: outcome_def)

lemma outcome_numeral [simp]:
  "outcome w (Suc (Suc 0)) = outcome w 2"
  "outcome w (Suc 2) = outcome w 3"
  "outcome w (Suc 3) = outcome w 4"
  "outcome w (Suc 4) = outcome w 5"
  by (simp_all add: numeral_2_eq_2 numeral_3_eq_3 eval_nat_numeral)

lemma object_url_update [simp]:
  "object_url (sent ev w) k = object_url w k"
  "object_url (w\<lparr>bucket := b\<rparr>) k = object_url w k"
  "object_url (w\<lparr>logged := l\<rparr>) k = object_url w k"
  "object_url (w\<lparr>jobResultsMap := c\<rparr>) k = object_url w k"
  "object_url (w\<lparr>extraction_jobs := j\<rparr>) k = object_url w k"
  by (simp_all add: object_url_def)

lemma new_job_id_update [simp]:
  "new_job_id (w\<lparr>faults := f\<rparr>) = new_job_id w"
  "new_job_id (w\<lparr>engine_extract := e\<rparr>) = new_job_id w"
  "new_job_id (w\<lparr>extraction_jobs := j\<rparr>) = new_job_id w"
  "new_job_id (w\<lparr>bucket := b\<rparr>) = new_job_id w"
  "new_job_id (w\<lparr>jobResultsMap := c\<rparr>) = new_job_id w"
  by (simp_all add: new_job_id_def)

lemma new_job_id_truthy [simp]: "truthy (Some (new_job_id w))"
  by (simp add: truthy_def new_job_id_def)

lemma pair_run: "f = (fst f, snd f)"
  by simp

lemma uploadFile_run:
  "uploadFile key buf ct md w =
     (case outcome w 0 of
        None \<Rightarrow>
          (Inr (object_url w key),
           (sent (S3Put key) w)\<lparr>bucket := (bucket w)(key \<mapsto>
               \<lparr>Body = buf, ContentType = ct, Metadata = md\<rparr>)\<rparr>)
      | Some m \<Rightarrow>
          (Inl (JsError (''Failed to upload file: '' @ m) None None),
           (sent (S3Put key) w)\<lparr>logged := logged w @ [(Err, ''Failed to upload file: '' @ m)]\<rparr>))"
  by (simp add: uploadFile_def client_send_def monad_defs logger_error_def
           split: option.splits)

lemma getFileBuffer_run:
  "getFileBuffer key w =
     (case outcome w 0 of
        None \<Rightarrow>
          (case bucket w key of
             None \<Rightarrow>
               (Inl (JsError (''Failed to get file: '' @ NoSuchKey) None None),
                (sent (S3Get key) w)\<lparr>logged := logged w @ [(Err, ''Failed to get file: '' @ NoSuchKey)]\<rparr>)
           | Some obj \<Rightarrow> (Inr (Body obj), sent (S3Get key) w))
      | Some m \<Rightarrow>
          (Inl (JsError (''Failed to get file: '' @ m) None None),
           (sent (S3Get key) w)\<lparr>logged := logged w @ [(Err, ''Failed to get file: '' @ m)]\<rparr>))"
  by (simp add: getFileBuffer_def client_send_def monad_defs logger_error_def
           split: option.splits)

lemma fileExists_run:
  "fileExists key w =
     (case outcome w 0 of
        None \<Rightarrow> (Inr (bucket w key \<noteq> None), sent (S3Head key) w)
      | Some m \<Rightarrow> (Inl (JsError m None None), sent (S3Head key) w))"
  by (simp add: fileExists_def client_send_def monad_defs split: option.splits)

lemma getExtractionJobById_run:
  "getExtractionJobById jobId w =
     (case outcome w 0 of
        None \<Rightarrow> (Inr (map_option columns (extraction_jobs w jobId)), sent (DbSelect jobId) w)
      | Some m \<Rightarrow> (Inl (JsError m None None), sent (DbSelect jobId) w))"
  by (simp add: getExtractionJobById_def client_send_def monad_defs split: option.splits)

lemma createExtractionJob_gen:
  "createExtractionJob user name url jobId w =
     (let ident = (if truthy jobId then the jobId else uuid w) in
      case outcome w 0 of
        None \<Rightarrow>
          (if extraction_jobs w ident \<noteq> None
           then (Inl (JsError duplicate_key None None), sent (DbInsert ident) w)
           else (Inr \<lparr>jid = ident, fileName = name, fileUrl = url, status = Pending,
                      createdAt = clock w, updatedAt = clock w, error = None, result = None\<rparr>,
                 (sent (DbInsert ident) w)\<lparr>extraction_jobs := (extraction_jobs w)(ident \<mapsto>
                    \<lparr>userId = user,
                     columns = \<lparr>jid = ident, fileName = name, fileUrl = url, status = Pending,
                       createdAt = clock w, updatedAt = clock w, error = None,
                       result = None\<rparr>\<rparr>)\<rparr>))
      | Some m \<Rightarrow> (Inl (JsError m None None), sent (DbInsert ident) w))"
  by (simp add: createExtractionJob_def client_send_def monad_defs Let_def
           split: option.splits)

lemma updateExtractionJob_run:
  "updateExtractionJob jobId st (Some r) None w =
     (case outcome w 0 of
        None \<Rightarrow>
          (case extraction_jobs w jobId of
             None \<Rightarrow> (Inr None, sent (DbUpdate jobId) w)
           | Some row \<Rightarrow>
               (Inr (Some ((columns row)\<lparr>status := st, updatedAt := clock w,
                                          result := nullable r\<rparr>)),
                (sent (DbUpdate jobId) w)\<lparr>extraction_jobs := (extraction_jobs w)(jobId \<mapsto>
                   row\<lparr>columns := (columns row)\<lparr>status := st, updatedAt := clock w,
                                                 result := nullable r\<rparr>\<rparr>)\<rparr>))
      | Some m \<Rightarrow> (Inl (JsError m None None), sent (DbUpdate jobId) w))"
  by (simp add: updateExtractionJob_def client_send_def monad_defs Let_def
           split: option.splits)

section \<open>Running \<^verbatim>\<open>startExtraction\<close> and \<^verbatim>\<open>extractDocument\<close>\<close>

lemma extraction_exception_plain [simp]:
  "extraction_exception (JsError m None None) =
     InternalServerErrorException ''Document extraction failed''"
  by (simp add: extraction_exception_def)

lemma startExtraction_upload_fails:
  assumes "outcome w 0 = Some m"
  shows "startExtraction buf name mime user lang pn w =
     (Inl (InternalServerErrorException ''Document extraction failed''),
      (sent (S3Put (original_key (new_job_id w) name)) w)
        \<lparr>logged := logged w @
           [(Err, ''Failed to upload file: '' @ m),
            (Err, ''Extraction failed for job '' @ new_job_id w @ '': ''
                  @ ''Failed to upload file: '' @ m)],
         jobResultsMap := (jobResultsMap w)(new_job_id w \<mapsto>
           \<lparr>c_status = Failed, c_fileUrl = [], c_fileName = Some name, c_data = None,
            c_error = Some (''Failed to upload file: '' @ m)\<rparr>)\<rparr>)"
  using assms
  by (simp add: startExtraction_def Let_def monad_defs uploadFile_run logger_error_def
        jobResultsMap_set_def)

lemma startExtraction_engine_fails:
  assumes "outcome w 0 = None"
    and "engine_extract w \<lparr>form_file = buf, form_filename = name, form_contentType = mime,
           target_language = lang, preserve_names = bool_toString pn\<rparr> = Inl e"
  shows "startExtraction buf name mime user lang pn w =
     (Inl (extraction_exception e),
      (sent (S3Put (original_key (new_job_id w) name)) w)
        \<lparr>bucket := (bucket w)(original_key (new_job_id w) name \<mapsto>
           \<lparr>Body = buf, ContentType = mime,
            Metadata = [(''userId'', user), (''originalName'', name),
                        (''jobId'', new_job_id w)]\<rparr>),
         trace := trace w @ [S3Put (original_key (new_job_id w) name), EnginePost name],
         logged := logged w @
           [(Err, ''Extraction failed for job '' @ new_job_id w @ '': '' @ err_message e)],
         jobResultsMap := (jobResultsMap w)(new_job_id w \<mapsto>
           \<lparr>c_status = Failed, c_fileUrl = [], c_fileName = Some name, c_data = None,
            c_error = Some (err_message e)\<rparr>)\<rparr>)"
  using assms
  by (simp add: startExtraction_def Let_def monad_defs uploadFile_run logger_error_def
        jobResultsMap_set_def post_extract_def)

lemma startExtraction_Inr:
  assumes "startExtraction buf name mime user lang pn w = (Inr r, w')"
  shows "\<exists>res. r = \<lparr>success = True, message = ''Extraction completed'',
                     job_id = Some (new_job_id w),
                     file_url = Some (object_url w (original_key (new_job_id w) name)),
                     data = Some res\<rparr>
          \<and> jobResultsMap w' (new_job_id w) =
              Some \<lparr>c_status = Completed,
                    c_fileUrl = object_url w (original_key (new_job_id w) name),
                    c_fileName = Some name, c_data = Some res, c_error = None\<rparr>
          \<and> res \<noteq> JNull"
  using assms
  by (auto simp: startExtraction_def Let_def monad_defs uploadFile_run post_extract_def
        jobResultsMap_set_def logger_error_def read_tables_def
      split: option.splits sum.splits if_splits)

lemma startExtraction_ok:
  assumes "outcome w 0 = None"
    and "engine_extract w \<lparr>form_file = buf, form_filename = name, form_contentType = mime,
           target_language = lang, preserve_names = bool_toString pn\<rparr> = Inr d"
    and "d \<noteq> JNull"
    and "outcome w 1 = None"
  shows "startExtraction buf name mime user lang pn w =
     (Inr \<lparr>success = True, message = ''Extraction completed'', job_id = Some (new_job_id w),
           file_url = Some (object_url w (original_key (new_job_id w) name)),
           data = Some d\<rparr>,
      (sent (S3Put (output_key (new_job_id w) name))
         (sent (S3Put (original_key (new_job_id w) name)) w))
        \<lparr>bucket := (bucket w)
           (original_key (new_job_id w) name \<mapsto>
              \<lparr>Body = buf, ContentType = mime,
               Metadata = [(''userId'', user), (''originalName'', name),
                           (''jobId'', new_job_id w)]\<rparr>,
            output_key (new_job_id w) name \<mapsto>
              \<lparr>Body = Json d, ContentType = ''application/json'',
               Metadata = [(''userId'', user), (''originalName'', name),
                           (''jobId'', new_job_id w)]\<rparr>),
         trace := trace w @ [S3Put (original_key (new_job_id w) name), EnginePost name,
                             S3Put (output_key (new_job_id w) name)],
         jobResultsMap := (jobResultsMap w)(new_job_id w \<mapsto>
           \<lparr>c_status = Completed,
            c_fileUrl = object_url w (original_key (new_job_id w) name),
            c_fileName = Some name, c_data = Some d, c_error = None\<rparr>)\<rparr>)"
  using assms
  by (simp add: startExtraction_def Let_def monad_defs uploadFile_run logger_error_def
        jobResultsMap_set_def post_extract_def sent_def outcome_def read_tables_def)

lemma startExtraction_null_reply:
  assumes "outcome w 0 = None"
    and "engine_extract w \<lparr>form_file = buf, form_filename = name, form_contentType = mime,
           target_language = lang, preserve_names = bool_toString pn\<rparr> = Inr JNull"
  shows "fst (startExtraction buf name mime user lang pn w) =
           Inl (InternalServerErrorException ''Document extraction failed'') \<and>
         jobResultsMap (snd (startExtraction buf name mime user lang pn w)) =
           (jobResultsMap w)(new_job_id w \<mapsto>
             \<lparr>c_status = Failed, c_fileUrl = [], c_fileName = Some name, c_data = None,
              c_error = Some ''Cannot read properties of null (reading 'tables')''\<rparr>) \<and>
         bucket (snd (startExtraction buf name mime user lang pn w)) =
           (bucket w)(original_key (new_job_id w) name \<mapsto>
             \<lparr>Body = buf, ContentType = mime,
              Metadata = [(''userId'', user), (''originalName'', name),
                          (''jobId'', new_job_id w)]\<rparr>)"
  using assms
  by (simp add: startExtraction_def Let_def monad_defs uploadFile_run logger_error_def
        jobResultsMap_set_def post_extract_def sent_def outcome_def read_tables_def
        extraction_exception_def)

lemma keys_differ: "original_key j n \<noteq> output_key j' n'" "original_key j n \<noteq> legacy_key j' n'"
  by (simp_all add: original_key_def output_key_def legacy_key_def)


lemma extractDocument_after_success:
  assumes "startExtraction (file_buffer f) (originalname f) (mimetype f)
       (or_else user ''test-user'') (or_else (dto_target_language dto) ''en'')
       (dto_preserve_names dto \<noteq> Some False) w = (Inr r, w1)"
    and "extractDocument (Some f) dto user w = (res, w2)"
  shows "res = Inr r \<and> jobResultsMap w2 = jobResultsMap w1 \<and> bucket w2 = bucket w1 \<and>
         trace w2 = trace w1 @ [DbInsert (new_job_id w)] \<and>
         (\<forall>m. outcome w1 0 = Some m \<longrightarrow>
            extraction_jobs w2 = extraction_jobs w1 \<and>
            logged w2 = logged w1 @
              [(Warn, ''Failed to create job record in database: '' @ m)]) \<and>
         (outcome w1 0 = None \<and> extraction_jobs w1 (new_job_id w) \<noteq> None \<longrightarrow>
            extraction_jobs w2 = extraction_jobs w1 \<and>
            logged w2 = logged w1 @
              [(Warn, ''Failed to create job record in database: '' @ duplicate_key)]) \<and>
         (outcome w1 0 = None \<and> extraction_jobs w1 (new_job_id w) = None \<longrightarrow>
            logged w2 = logged w1 \<and>
            extraction_jobs w2 = (extraction_jobs w1)(new_job_id w \<mapsto>
              \<lparr>userId = or_else user ''test-user'',
               columns = \<lparr>jid = new_job_id w, fileName = originalname f,
                          fileUrl = or_else (file_url r) [], status = Pending,
                          createdAt = clock w1, updatedAt = clock w1, error = None,
                          result = None\<rparr>\<rparr>))"
  using startExtraction_Inr[OF assms(1)] assms
  by (auto simp: extractDocument_def monad_defs createExtractionJob_gen logger_warn_def
        Let_def split: option.splits if_splits)

section \<open>Running \<^verbatim>\<open>getExtractionStatus\<close>\<close>

lemma getExtractionStatus_hit:
  "jobResultsMap w jobId = Some c \<Longrightarrow>
   getExtractionStatus jobId w =
     (Inr \<lparr>s_job_id = jobId, s_status = c_status c, s_file_url = Some (c_fileUrl c),
           s_data = c_data c, s_error = c_error c\<rparr>, w)"
  by (simp add: getExtractionStatus_def monad_defs jobResultsMap_get_def)

lemma probe_key_run:
  "probe_key j n k w =
     (case outcome w 0 of
        Some m \<Rightarrow>
          (Inr None,
           (sent (S3Head k) w)\<lparr>logged := logged w @
              [(Warn, ''Failed to fetch from S3 with key '' @ k @ '': '' @ m)]\<rparr>)
      | None \<Rightarrow>
          (case bucket w k of
             None \<Rightarrow> (Inr None, sent (S3Head k) w)
           | Some obj \<Rightarrow>
               (case outcome w 1 of
                  Some m \<Rightarrow>
                    (Inr None,
                     (sent (S3Get k) (sent (S3Head k) w))\<lparr>logged := logged w @
                        [(Err, ''Failed to get file: '' @ m),
                         (Warn, ''Failed to fetch from S3 with key '' @ k @ '': ''
                                @ ''Failed to get file: '' @ m)]\<rparr>)
                | None \<Rightarrow>
                    (case Body obj of
                       Json d \<Rightarrow>
                         (Inr (Some (completed_reply j d)),
                          (sent (S3Get k) (sent (S3Head k) w))\<lparr>jobResultsMap :=
                             (jobResultsMap w)(j \<mapsto> blob_entry n d)\<rparr>)
                     | Raw b \<Rightarrow>
                         (Inr None,
                          (sent (S3Get k) (sent (S3Head k) w))\<lparr>logged := logged w @
                             [(Warn, ''Failed to fetch from S3 with key '' @ k @ '': ''
                                     @ ''Unexpected token in JSON'')]\<rparr>)))))"
  by (simp add: probe_key_def monad_defs fileExists_run getFileBuffer_run JSON_parse_def
        jobResultsMap_set_def completed_reply_def blob_entry_def logger_warn_def
      split: option.splits buffer.splits)

lemma probe_key_effect:
  "probe_key j n k w = (res, w') \<Longrightarrow>
   bucket w' = bucket w \<and> extraction_jobs w' = extraction_jobs w \<and>
   engine_status w' = engine_status w \<and>
   ((res = Inr None \<and> jobResultsMap w' = jobResultsMap w) \<or>
    (\<exists>d. res = Inr (Some (completed_reply j d)) \<and>
          jobResultsMap w' = (jobResultsMap w)(j \<mapsto> blob_entry n d)))"
  by (auto simp: probe_key_run split: option.splits buffer.splits)

lemma probe_keys_effect:
  "probe_keys j n ks w = (res, w') \<Longrightarrow>
   bucket w' = bucket w \<and> extraction_jobs w' = extraction_jobs w \<and>
   engine_status w' = engine_status w \<and>
   ((res = Inr None \<and> jobResultsMap w' = jobResultsMap w) \<or>
    (\<exists>d. res = Inr (Some (completed_reply j d)) \<and>
          jobResultsMap w' = (jobResultsMap w)(j \<mapsto> blob_entry n d)))"
proof (induction ks arbitrary: w)
  case Nil
  then show ?case by (auto simp: monad_defs)
next
  case (Cons k ks)
  obtain r1 w1 where step: "probe_key j n k w = (r1, w1)"
    by (cases "probe_key j n k w")
  note eff = probe_key_effect[OF step]
  show ?case
  proof (cases "r1 = Inr None")
    case True
    with Cons.prems step have "probe_keys j n ks w1 = (res, w')"
      by (simp add: monad_defs)
    moreover from eff True have "bucket w1 = bucket w" "extraction_jobs w1 = extraction_jobs w"
      "engine_status w1 = engine_status w" "jobResultsMap w1 = jobResultsMap w"
      by auto
    ultimately show ?thesis using Cons.IH[of w1] by simp
  next
    case False
    with eff obtain d where d: "r1 = Inr (Some (completed_reply j d))" by auto
    with Cons.prems step have "res = r1" "w' = w1" by (simp_all add: monad_defs)
    with eff d show ?thesis by blast
  qed
qed

lemma getExtractionStatus_miss_effect:
  assumes "jobResultsMap w j = None" and "getExtractionStatus j w = (res, w')"
  shows "bucket w' = bucket w \<and> extraction_jobs w' = extraction_jobs w \<and>
         (jobResultsMap w' = jobResultsMap w \<or>
          (\<exists>d n. res = Inr (completed_reply j d) \<and>
                 jobResultsMap w' = (jobResultsMap w)(j \<mapsto> blob_entry n d)))"
proof -
  let ?keys = "\<lambda>n. [output_key j n, legacy_key j n]"
  show ?thesis
  proof (cases "outcome w 0 = None \<and> truthy (map_option (fileName \<circ> columns) (extraction_jobs w j))")
    case True
    then obtain n where n: "map_option (fileName \<circ> columns) (extraction_jobs w j) = Some n"
      by (auto simp: truthy_def split: option.splits)
    obtain r1 w1 where p: "probe_keys j n (?keys n) (sent (DbSelect j) w) = (r1, w1)"
      by (cases "probe_keys j n (?keys n) (sent (DbSelect j) w)")
    note eff = probe_keys_effect[OF p]
    from assms True n p eff show ?thesis
      by (auto simp: getExtractionStatus_def monad_defs jobResultsMap_get_def
            getExtractionJobById_run get_status_def logger_error_def option.map_comp
          simp del: probe_keys.simps split: sum.splits option.splits)
  next
    case False
    with assms show ?thesis
      by (auto simp: getExtractionStatus_def monad_defs jobResultsMap_get_def
            getExtractionJobById_run get_status_def logger_error_def logger_warn_def
            option.map_comp truthy_def
          simp del: probe_keys.simps split: sum.splits option.splits if_splits)
  qed
qed

lemmas status_defs = getExtractionStatus_def monad_defs jobResultsMap_get_def
  getExtractionJobById_run get_status_def logger_error_def logger_warn_def truthy_def
  probe_key_run remote_reply_def

lemma getExtractionStatus_no_record:
  assumes "jobResultsMap w jobId = None" and "outcome w 0 = None"
    and "extraction_jobs w jobId = None"
    and "getExtractionStatus jobId w = (res, w')"
  shows "res = remote_reply w jobId \<and> trace w' = trace w @ [DbSelect jobId, EngineGet jobId] \<and>
         jobResultsMap w' = jobResultsMap w"
  using assms by (auto simp: status_defs split: sum.splits)

lemma getExtractionStatus_encoded_hit:
  assumes "jobResultsMap w jobId = None"
    and "outcome w 0 = None" and "outcome w 1 = None" and "outcome w 2 = None"
    and "extraction_jobs w jobId = Some row" and "fileName (columns row) \<noteq> []"
    and "bucket w (output_key jobId (fileName (columns row))) = Some obj"
    and "Body obj = Json d"
    and "getExtractionStatus jobId w = (res, w')"
  shows "res = Inr (completed_reply jobId d) \<and>
         trace w' = trace w @ [DbSelect jobId,
           S3Head (output_key jobId (fileName (columns row))),
           S3Get (output_key jobId (fileName (columns row)))] \<and>
         jobResultsMap w' = (jobResultsMap w)(jobId \<mapsto> blob_entry (fileName (columns row)) d)"
  using assms by (auto simp: status_defs)

lemma getExtractionStatus_legacy_hit:
  assumes "jobResultsMap w jobId = None"
    and "outcome w 0 = None" and "outcome w 1 = None" and "outcome w 2 = None"
    and "outcome w 3 = None"
    and "extraction_jobs w jobId = Some row" and "fileName (columns row) \<noteq> []"
    and "bucket w (output_key jobId (fileName (columns row))) = None"
    and "bucket w (legacy_key jobId (fileName (columns row))) = Some obj"
    and "Body obj = Json d"
    and "getExtractionStatus jobId w = (res, w')"
  shows "res = Inr (completed_reply jobId d) \<and>
         trace w' = trace w @ [DbSelect jobId,
           S3Head (output_key jobId (fileName (columns row))),
           S3Head (legacy_key jobId (fileName (columns row))),
           S3Get (legacy_key jobId (fileName (columns row)))] \<and>
         jobResultsMap w' = (jobResultsMap w)(jobId \<mapsto> blob_entry (fileName (columns row)) d)"
  using assms by (auto simp: status_defs)

lemma getExtractionStatus_no_blob:
  assumes "jobResultsMap w jobId = None"
    and "outcome w 0 = None" and "outcome w 1 = None" and "outcome w 2 = None"
    and "extraction_jobs w jobId = Some row" and "fileName (columns row) \<noteq> []"
    and "bucket w (output_key jobId (fileName (columns row))) = None"
    and "bucket w (legacy_key jobId (fileName (columns row))) = None"
    and "getExtractionStatus jobId w = (res, w')"
  shows "res = remote_reply w jobId \<and>
         trace w' = trace w @ [DbSelect jobId,
           S3Head (output_key jobId (fileName (columns row))),
           S3Head (legacy_key jobId (fileName (columns row))),
           EngineGet jobId] \<and>
         jobResultsMap w' = jobResultsMap w"
  using assms by (auto simp: status_defs split: sum.splits)

lemma controller_getExtractionStatus_cache:
  assumes "controller_getExtractionStatus jobId w = (res, w2)"
  shows "res = fst (getExtractionStatus jobId w) \<and>
         jobResultsMap w2 = jobResultsMap (snd (getExtractionStatus jobId w)) \<and>
         bucket w2 = bucket (snd (getExtractionStatus jobId w))"
proof -
  obtain r1 w1 where run: "getExtractionStatus jobId w = (r1, w1)"
    by (cases "getExtractionStatus jobId w")
  with assms show ?thesis
    by (auto simp: controller_getExtractionStatus_def monad_defs updateExtractionJob_def
          client_send_def logger_warn_def Let_def
        split: sum.splits option.splits if_splits)
qed

section \<open>Running \<^verbatim>\<open>updateExtractionResult\<close>\<close>

lemma js_truthy_json_of: "js_truthy (json_of r)"
  by (simp add: json_of_def)

lemma js_truthy_not_null: "js_truthy d \<Longrightarrow> d \<noteq> JNull"
  by (cases d) simp_all

lemma nullable_truthy: "js_truthy d \<Longrightarrow> nullable d = Some d"
  by (cases d) (simp_all add: nullable_def)

lemma no_data_Some: "no_data (Some d) \<longleftrightarrow> \<not> js_truthy d"
  by (simp add: no_data_def)

lemma no_data_None: "no_data None"
  by (simp add: no_data_def)

lemmas update_defs = updateExtractionResult_def monad_defs logger_error_def
  getExtractionJobById_run createExtractionJob_gen uploadFile_run
  updateExtractionJob_run updateJobResult_def jobResultsMap_set_def
  getJobFromCache_def jobResultsMap_get_def Let_def no_data_Some no_data_None
  nullable_truthy

lemma updateExtractionResult_Inl:
  assumes "updateExtractionResult jobId body w = (Inl e, w')"
  shows "jobResultsMap w' = jobResultsMap w \<and>
         (\<exists>m. e = BadRequestException (''Failed to update extraction result: '' @ m))"
  using assms
  by (cases body)
     (auto simp: updateExtractionResult_def monad_defs logger_error_def
        getExtractionJobById_run createExtractionJob_gen uploadFile_run
        updateExtractionJob_run updateJobResult_def jobResultsMap_set_def
        getJobFromCache_def jobResultsMap_get_def Let_def no_data_Some no_data_None
      split: option.splits if_splits)

lemma updateExtractionResult_Inr:
  assumes "updateExtractionResult jobId body w = (Inr ok, w')"
  shows "\<exists>d row.
           body = Some d \<and> js_truthy d \<and>
           ok = \<lparr>u_success = True, u_message = ''Extraction result updated successfully''\<rparr> \<and>
           extraction_jobs w' jobId = Some row \<and>
           status (columns row) = Completed \<and> result (columns row) = Some d \<and>
           bucket w' (output_key jobId (fileName (columns row))) =
             Some \<lparr>Body = Json d, ContentType = ''application/json'',
                   Metadata = [(''jobId'', jobId), (''originalName'', fileName (columns row)),
                               (''updated'', ''true'')]\<rparr> \<and>
           jobResultsMap w' = (jobResultsMap w)(jobId \<mapsto>
             \<lparr>c_status = Completed, c_fileUrl = fileUrl (columns row),
              c_fileName = Some (fileName (columns row)), c_data = Some d, c_error = None\<rparr>)"
  using assms
  by (cases body) (auto simp: update_defs split: option.splits if_splits)

lemma updateExtractionResult_db_update_fails:
  assumes "extraction_jobs w jobId = Some row"
    and "outcome w 0 = None" and "outcome w 1 = None" and "outcome w 2 = Some m"
    and "js_truthy d"
    and "updateExtractionResult jobId (Some d) w = (res, w')"
  shows "res = Inl (BadRequestException (''Failed to update extraction result: '' @ m)) \<and>
         bucket w' = (bucket w)(output_key jobId (fileName (columns row)) \<mapsto>
           \<lparr>Body = Json d, ContentType = ''application/json'',
            Metadata = [(''jobId'', jobId), (''originalName'', fileName (columns row)),
                        (''updated'', ''true'')]\<rparr>) \<and>
         extraction_jobs w' = extraction_jobs w \<and>
         jobResultsMap w' = jobResultsMap w \<and>
         trace w' = trace w @ [DbSelect jobId,
           S3Put (output_key jobId (fileName (columns row))), DbUpdate jobId]"
  using assms by (auto simp: update_defs)

lemma updateExtractionResult_db_update_fails_next:
  assumes "extraction_jobs w jobId = Some row"
    and "outcome w 0 = None" and "outcome w 1 = None" and "outcome w 2 = Some m"
    and "js_truthy d"
    and "updateExtractionResult jobId (Some d) w = (res, w')"
  shows "outcome w' i = outcome w (Suc (Suc (Suc i)))"
  using assms by (auto simp: update_defs outcome_def sent_def)

lemma updateExtractionResult_upload_fails:
  assumes "extraction_jobs w jobId = Some row"
    and "outcome w 0 = None" and "outcome w 1 = Some m"
    and "js_truthy d"
    and "updateExtractionResult jobId (Some d) w = (res, w')"
  shows "res = Inl (BadRequestException
                 (''Failed to update extraction result: '' @ ''Failed to upload file: '' @ m)) \<and>
         bucket w' = bucket w \<and> extraction_jobs w' = extraction_jobs w \<and>
         jobResultsMap w' = jobResultsMap w"
  using assms by (auto simp: update_defs)

lemma updateExtractionResult_not_found:
  assumes "extraction_jobs w jobId = None" and "jobResultsMap w jobId = None"
    and "outcome w 0 = None"
    and "js_truthy d"
    and "updateExtractionResult jobId (Some d) w = (res, w')"
  shows "res = Inl (BadRequestException ''Failed to update extraction result: Job not found'') \<and>
         bucket w' = bucket w \<and> extraction_jobs w' = extraction_jobs w \<and>
         jobResultsMap w' = jobResultsMap w \<and> trace w' = trace w @ [DbSelect jobId]"
  using assms by (auto simp: update_defs)

lemma updateExtractionResult_no_data:
  assumes "no_data body"
    and "updateExtractionResult jobId body w = (res, w')"
  shows "res = Inl (BadRequestException
                 ''Failed to update extraction result: No data provided'') \<and>
         bucket w' = bucket w \<and> extraction_jobs w' = extraction_jobs w \<and>
         jobResultsMap w' = jobResultsMap w \<and> trace w' = trace w"
  using assms by (auto simp: updateExtractionResult_def monad_defs logger_error_def)

lemma updateExtractionResult_in_table:
  assumes "extraction_jobs w jobId = Some row"
    and "outcome w 0 = None" and "outcome w 1 = None" and "outcome w 2 = None"
    and "js_truthy d"
    and "updateExtractionResult jobId (Some d) w = (res, w')"
  shows "res = Inr \<lparr>u_success = True, u_message = ''Extraction result updated successfully''\<rparr> \<and>
         trace w' = trace w @ [DbSelect jobId,
           S3Put (output_key jobId (fileName (columns row))), DbUpdate jobId]"
  using assms by (auto simp: update_defs)

lemma updateExtractionResult_from_cache:
  assumes "extraction_jobs w jobId = None" and "jobResultsMap w jobId = Some c"
    and "jobId \<noteq> []"
    and "outcome w 0 = None" and "outcome w 1 = None" and "outcome w 2 = None"
    and "outcome w 3 = None" and "outcome w 4 = None"
    and "js_truthy d"
    and "updateExtractionResult jobId (Some d) w = (res, w')"
  shows "res = Inr \<lparr>u_success = True, u_message = ''Extraction result updated successfully''\<rparr> \<and>
         extraction_jobs w' = (extraction_jobs w)(jobId \<mapsto>
           \<lparr>userId = ''unknown'',
            columns = \<lparr>jid = jobId, fileName = ''unknown'', fileUrl = c_fileUrl c,
                       status = Completed, createdAt = clock w, updatedAt = clock w,
                       error = None, result = Some d\<rparr>\<rparr>) \<and>
         bucket w' = (bucket w)(output_key jobId ''unknown'' \<mapsto>
           \<lparr>Body = Json d, ContentType = ''application/json'',
            Metadata = [(''jobId'', jobId), (''originalName'', ''unknown''),
                        (''updated'', ''true'')]\<rparr>) \<and>
         jobResultsMap w' = (jobResultsMap w)(jobId \<mapsto>
           \<lparr>c_status = Completed, c_fileUrl = c_fileUrl c, c_fileName = Some ''unknown'',
            c_data = Some d, c_error = None\<rparr>) \<and>
         trace w' = trace w @ [DbSelect jobId, DbInsert jobId, DbSelect jobId,
           S3Put (output_key jobId ''unknown''), DbUpdate jobId]"
  using assms by (auto simp: update_defs truthy_def or_else_def)

section \<open>The cache invariant, entry point by entry point\<close>










section \<open>The concrete runs, evaluated\<close>

lemma show_nat_clock0: "show_nat 1700000000000 = ''1700000000000''"
  by (simp add: show_nat.simps)

lemma world0_fields [simp]:
  "outcome world0 i = None"
  "engine_extract world0 req = Inr result0"
  "new_job_id world0 = ''job_1700000000000_k3x9q''"
  "jobResultsMap world0 = Map.empty"
  "bucket world0 = Map.empty"
  "extraction_jobs world0 = Map.empty"
  "trace world0 = []"
  by (simp_all add: world0_def outcome_def new_job_id_def show_nat_clock0)

lemma world0_more [simp]:
  "engine_status world0 j = Inl not_found"
  "logged world0 = []"
  by (simp_all add: world0_def)

lemma encode_my_file: "encodeURIComponent ''my file.pdf'' = ''my%20file.pdf''"
  by (simp add: encodeURIComponent_def percent_encode_def uri_unreserved_def hex_digit_def)

lemma encode_unknown: "encodeURIComponent ''unknown'' = ''unknown''"
  by (simp add: encodeURIComponent_def percent_encode_def uri_unreserved_def)

lemma keys_my_file:
  "output_key j ''my file.pdf'' = ''output/'' @ j @ ''/my%20file.pdf.json''"
  "legacy_key j ''my file.pdf'' = ''output/'' @ j @ ''/my file.pdf.json''"
  "original_key j ''my file.pdf'' = ''originals/'' @ j @ ''/my%20file.pdf''"
  by (simp_all add: output_key_def legacy_key_def original_key_def encode_my_file)

lemma object_url_world0:
  "object_url world0 k = ''https://udayam-files.t3.storage.dev/'' @ k"
  by (simp add: object_url_def world0_def strip_trailing_slash_def)

lemma remote_reply_update [simp]:
  "remote_reply (w\<lparr>extraction_jobs := j\<rparr>) = remote_reply w"
  "remote_reply (w\<lparr>bucket := b\<rparr>) = remote_reply w"
  by (simp_all add: remote_reply_def fun_eq_iff)

lemma remote_reply_world0 [simp]:
  "remote_reply world0 j = Inl (BadRequestException ''Job not found'')"
  by (simp add: remote_reply_def not_found_def status_exception_def)

lemma results_truthy [simp]:
  "js_truthy result0" "js_truthy result1" "result0 \<noteq> JNull" "result1 \<noteq> JNull"
  by (simp_all add: result0_def result1_def json_of_def)

lemma extraction0:
  "startExtraction (Raw ''%PDF-1.7'') ''my file.pdf'' ''application/pdf'' ''u1'' ''en'' True world0
   = (Inr response0, after_extraction)"
  unfolding after_extraction_def extract_in_def
  by (simp add: startExtraction_ok object_url_world0 original_key_def encode_my_file
        response0_def)

lemma after_extraction_fields [simp]:
  "jobResultsMap after_extraction = [''job_1700000000000_k3x9q'' \<mapsto> entry0]"
  "extraction_jobs after_extraction = Map.empty"
  "outcome after_extraction i = None"
  "clock after_extraction = 1700000000000"
  "trace after_extraction =
     [S3Put ''originals/job_1700000000000_k3x9q/my%20file.pdf'', EnginePost ''my file.pdf'',
      S3Put ''output/job_1700000000000_k3x9q/my%20file.pdf.json'']"
  "bucket after_extraction ''output/job_1700000000000_k3x9q/my%20file.pdf.json'' = Some json0"
  "bucket after_extraction ''output/job_1700000000000_k3x9q/unknown.json'' = None"
  unfolding after_extraction_def extract_in_def
  by (simp_all add: startExtraction_ok object_url_world0 keys_my_file entry0_def json0_def)
     (simp_all add: world0_def)

lemma row0_fields [simp]:
  "fileName (columns row0) = ''my file.pdf''" "Body json0 = Json result0"
  by (simp_all add: row0_def json0_def)

lemma results_differ: "result1 \<noteq> result0"
  by (simp add: result1_def result0_def json_of_def table_json_def)

lemma world_upload_down_fields [simp]:
  "outcome world_upload_down 0 = Some ''connect ETIMEDOUT''"
  "new_job_id world_upload_down = ''job_1700000000000_k3x9q''"
  "jobResultsMap world_upload_down = Map.empty"
  "bucket world_upload_down = Map.empty"
  "extraction_jobs world_upload_down = Map.empty"
  "trace world_upload_down = []"
  by (simp_all add: world_upload_down_def) (simp_all add: world0_def outcome_def)

lemma world_engine_timeout_fields [simp]:
  "outcome world_engine_timeout i = None"
  "engine_extract world_engine_timeout req = Inl axios_timeout"
  "new_job_id world_engine_timeout = ''job_1700000000000_k3x9q''"
  "jobResultsMap world_engine_timeout = Map.empty"
  "bucket world_engine_timeout = Map.empty"
  "extraction_jobs world_engine_timeout = Map.empty"
  "trace world_engine_timeout = []"
  by (simp_all add: world_engine_timeout_def) (simp_all add: world0_def outcome_def)

lemma world_engine_refused_fields [simp]:
  "outcome world_engine_refused i = None"
  "engine_extract world_engine_refused req = Inl axios_refused"
  "outcome world_engine_rejected i = None"
  "engine_extract world_engine_rejected req = Inl axios_rejected"
  by (simp_all add: world_engine_refused_def world_engine_rejected_def)
     (simp_all add: world0_def outcome_def)

lemma world_engine_silent_fields [simp]:
  "outcome world_engine_silent i = None"
  "engine_extract world_engine_silent req = Inl axios_silent"
  "new_job_id world_engine_silent = ''job_1700000000000_k3x9q''"
  "jobResultsMap world_engine_silent = Map.empty"
  "bucket world_engine_silent = Map.empty"
  "extraction_jobs world_engine_silent = Map.empty"
  "clock world_engine_silent = 1700000000000"
  by (simp_all add: world_engine_silent_def) (simp_all add: world0_def outcome_def)

lemma world_empty_reply_fields [simp]:
  "outcome world_empty_reply i = None"
  "engine_extract world_empty_reply req = Inr (JStr [])"
  "new_job_id world_empty_reply = ''job_1700000000000_k3x9q''"
  "jobResultsMap world_empty_reply = Map.empty"
  by (simp_all add: world_empty_reply_def) (simp_all add: world0_def outcome_def)

lemma object_url_world_empty_reply [simp]:
  "object_url world_empty_reply k = ''https://udayam-files.t3.storage.dev/'' @ k"
  by (simp add: object_url_def world_empty_reply_def world0_def strip_trailing_slash_def)

lemma world_null_blob_fields [simp]:
  "outcome world_null_blob i = None"
  "jobResultsMap world_null_blob = Map.empty"
  "extraction_jobs world_null_blob = [''job_1700000000000_k3x9q'' \<mapsto> row0]"
  "bucket world_null_blob =
     [''output/job_1700000000000_k3x9q/my%20file.pdf.json'' \<mapsto> json0\<lparr>Body := Json JNull\<rparr>]"
  by (simp_all add: world_null_blob_def outcome_def) (simp_all add: world0_def)

lemma world_db_down_fields [simp]:
  "outcome world_db_down 0 = None" "outcome world_db_down (Suc 0) = None"
  "outcome world_db_down 2 = Some ''Connection terminated unexpectedly''"
  "engine_extract world_db_down req = Inr result0"
  "new_job_id world_db_down = ''job_1700000000000_k3x9q''"
  "logged world_db_down = []" "extraction_jobs world_db_down = Map.empty"
  "object_url world_db_down k = ''https://udayam-files.t3.storage.dev/'' @ k"
  by (simp_all add: world_db_down_def outcome_def object_url_def)
     (simp_all add: world0_def strip_trailing_slash_def)

lemma restart_fields [simp]:
  "outcome world_restarted i = None" "outcome world_legacy i = None"
  "outcome world_record_only i = None"
  "jobResultsMap world_restarted = Map.empty" "jobResultsMap world_legacy = Map.empty"
  "jobResultsMap world_record_only = Map.empty"
  "trace world_restarted = []" "trace world_legacy = []" "trace world_record_only = []"
  "extraction_jobs world_restarted = [''job_1700000000000_k3x9q'' \<mapsto> row0]"
  "extraction_jobs world_legacy = [''job_1700000000000_k3x9q'' \<mapsto> row0]"
  "extraction_jobs world_record_only = [''job_1700000000000_k3x9q'' \<mapsto> row0]"
  "bucket world_restarted = [''output/job_1700000000000_k3x9q/my%20file.pdf.json'' \<mapsto> json0]"
  "bucket world_legacy = [''output/job_1700000000000_k3x9q/my file.pdf.json'' \<mapsto> json0]"
  "bucket world_record_only = Map.empty"
  "remote_reply world_record_only j = Inl (BadRequestException ''Job not found'')"
  by (simp_all add: world_restarted_def world_legacy_def world_record_only_def outcome_def)
     (simp_all add: world0_def)

lemma edit_db_down_fields [simp]:
  "outcome world_edit_db_down 0 = None" "outcome world_edit_db_down (Suc 0) = None"
  "outcome world_edit_db_down 2 = Some ''Connection terminated unexpectedly''"
  "outcome world_edit_db_down (Suc (Suc (Suc i))) = None"
  "jobResultsMap world_edit_db_down = Map.empty"
  "extraction_jobs world_edit_db_down = [''job_1700000000000_k3x9q'' \<mapsto> row0]"
  "bucket world_edit_db_down = [''output/job_1700000000000_k3x9q/my%20file.pdf.json'' \<mapsto> json0]"
  "outcome world_cached_db_down 0 = None" "outcome world_cached_db_down (Suc 0) = None"
  "outcome world_cached_db_down 2 = Some ''Connection terminated unexpectedly''"
  "jobResultsMap world_cached_db_down = [''job_1700000000000_k3x9q'' \<mapsto> entry0]"
  "extraction_jobs world_cached_db_down = [''job_1700000000000_k3x9q'' \<mapsto> row0]"
  "bucket world_cached_db_down = [''output/job_1700000000000_k3x9q/my%20file.pdf.json'' \<mapsto> json0]"
  by (simp_all add: world_cached_db_down_def world_edit_db_down_def outcome_def)
     (simp_all add: world_restarted_def world0_def)

lemma edit_upload_down_fields [simp]:
  "outcome world_edit_upload_down 0 = None"
  "outcome world_edit_upload_down (Suc 0) = Some ''connect ETIMEDOUT''"
  "extraction_jobs world_edit_upload_down = [''job_1700000000000_k3x9q'' \<mapsto> row0]"
  by (simp_all add: world_edit_upload_down_def outcome_def)
     (simp_all add: world_restarted_def world0_def)

section \<open>A failed upload of the original\<close>

text \<open>
  C1, refuted as stated. The upload of the original fails (the first call to S3 is a
  fault); \<^verbatim>\<open>startExtraction\<close> throws, and yet \<^verbatim>\<open>getExtractionStatus\<close> for the generated job
  id finds a job, with status \<^verbatim>\<open>failed\<close>.
\<close>

theorem upload_failure_leaves_a_failed_job:
  "outcome world_upload_down 0 = Some ''connect ETIMEDOUT'' \<and>
   fst (startExtraction (Raw ''%PDF-1.7'') ''my file.pdf'' ''application/pdf'' ''u1'' ''en'' True
          world_upload_down) =
     Inl (InternalServerErrorException ''Document extraction failed'') \<and>
   fst (getExtractionStatus ''job_1700000000000_k3x9q''
          (snd (startExtraction (Raw ''%PDF-1.7'') ''my file.pdf'' ''application/pdf'' ''u1'' ''en''
                  True world_upload_down))) =
     Inr \<lparr>s_job_id = ''job_1700000000000_k3x9q'', s_status = Failed, s_file_url = Some [],
          s_data = None,
          s_error = Some ''Failed to upload file: connect ETIMEDOUT''\<rparr>"
  by (simp add: startExtraction_upload_fails[of world_upload_down "''connect ETIMEDOUT''"]
        getExtractionStatus_hit)

text \<open>
  C1, as amended. When the upload of the original fails, \<^verbatim>\<open>startExtraction\<close> throws the
  internal server error \<^verbatim>\<open>Document extraction failed\<close> after that one call to S3: the
  engine is not called, and neither the bucket nor the table changes. The cache,
  however, gets a \<^verbatim>\<open>failed\<close> entry for the generated job id, and a following
  \<^verbatim>\<open>getExtractionStatus\<close> returns it, with the upload error as its message.
\<close>

theorem upload_failure_aborts_and_is_recorded:
  assumes "outcome w 0 = Some m"
    and "startExtraction buf name mime user lang pn w = (res, w')"
  shows "res = Inl (InternalServerErrorException ''Document extraction failed'') \<and>
         trace w' = trace w @ [S3Put (original_key (new_job_id w) name)] \<and>
         bucket w' = bucket w \<and> extraction_jobs w' = extraction_jobs w \<and>
         jobResultsMap w' = (jobResultsMap w)(new_job_id w \<mapsto>
           \<lparr>c_status = Failed, c_fileUrl = [], c_fileName = Some name, c_data = None,
            c_error = Some (''Failed to upload file: '' @ m)\<rparr>) \<and>
         getExtractionStatus (new_job_id w) w' =
           (Inr \<lparr>s_job_id = new_job_id w, s_status = Failed, s_file_url = Some [],
                 s_data = None, s_error = Some (''Failed to upload file: '' @ m)\<rparr>, w')"
  using assms(2) unfolding startExtraction_upload_fails[OF assms(1)]
  by (auto simp: getExtractionStatus_hit)

theorem upload_failure_aborts_and_is_recorded_witness:
  "outcome world_upload_down 0 = Some ''connect ETIMEDOUT'' \<and>
   fst (startExtraction (Raw ''%PDF-1.7'') ''my file.pdf'' ''application/pdf'' ''u1'' ''en'' True
          world_upload_down) =
     Inl (InternalServerErrorException ''Document extraction failed'') \<and>
   bucket (snd (startExtraction (Raw ''%PDF-1.7'') ''my file.pdf'' ''application/pdf'' ''u1''
                  ''en'' True world_upload_down)) = Map.empty \<and>
   trace (snd (startExtraction (Raw ''%PDF-1.7'') ''my file.pdf'' ''application/pdf'' ''u1''
                  ''en'' True world_upload_down)) =
     [S3Put ''originals/job_1700000000000_k3x9q/my%20file.pdf'']"
proof -
  have fault: "outcome world_upload_down 0 = Some ''connect ETIMEDOUT''" by simp
  have run: "startExtraction (Raw ''%PDF-1.7'') ''my file.pdf'' ''application/pdf'' ''u1'' ''en''
               True world_upload_down =
             (fst (startExtraction (Raw ''%PDF-1.7'') ''my file.pdf'' ''application/pdf'' ''u1''
                     ''en'' True world_upload_down),
              snd (startExtraction (Raw ''%PDF-1.7'') ''my file.pdf'' ''application/pdf'' ''u1''
                     ''en'' True world_upload_down))"
    by simp
  from upload_failure_aborts_and_is_recorded[OF fault run] fault show ?thesis
    by (simp add: original_key_def encode_my_file)
qed

section \<open>Read-your-writes after a successful extraction\<close>

text \<open>
  C2. Whenever \<^verbatim>\<open>startExtraction\<close> succeeds, \<^verbatim>\<open>getExtractionStatus\<close> for the job id it
  returned, called on the state it left, answers \<^verbatim>\<open>completed\<close> with the very result and
  file URL that \<^verbatim>\<open>startExtraction\<close> returned, and changes nothing.
\<close>

theorem status_after_successful_extraction:
  assumes "startExtraction buf name mime user lang pn w = (Inr r, w')"
  shows "job_id r = Some (new_job_id w) \<and> data r \<noteq> None \<and>
         getExtractionStatus (new_job_id w) w' =
           (Inr \<lparr>s_job_id = new_job_id w, s_status = Completed, s_file_url = file_url r,
                 s_data = data r, s_error = None\<rparr>, w')"
  using startExtraction_Inr[OF assms] by (auto simp: getExtractionStatus_hit)

theorem status_after_successful_extraction_witness:
  "getExtractionStatus ''job_1700000000000_k3x9q'' after_extraction =
     (Inr \<lparr>s_job_id = ''job_1700000000000_k3x9q'', s_status = Completed,
           s_file_url = Some
             ''https://udayam-files.t3.storage.dev/originals/job_1700000000000_k3x9q/my%20file.pdf'',
           s_data = Some result0, s_error = None\<rparr>, after_extraction)"
  using status_after_successful_extraction[OF extraction0] by (simp add: response0_def)

section \<open>The order of the fallbacks on a cache miss\<close>

text \<open>
  C3. On a cache miss, with the calls to the table and to S3 going through,
  \<^verbatim>\<open>getExtractionStatus\<close> first selects the job record. Without a record it skips the
  bucket and passes on what the status endpoint of the engine replies. With a record
  and its (non-empty) file name it asks S3 for the URL-encoded result key first: a JSON
  result found there is returned as \<^verbatim>\<open>completed\<close> and stored in the cache, and the legacy
  key is not looked at. When the encoded key is absent it asks for the legacy, unencoded
  key, and a result found there is returned and cached in the same way. When both are
  absent it falls through to the engine.
\<close>

theorem status_reconstruction_order:
  assumes "jobResultsMap w jobId = None"
    and "outcome w 0 = None" and "outcome w 1 = None" and "outcome w 2 = None"
    and "outcome w 3 = None"
    and "getExtractionStatus jobId w = (res, w')"
  shows "(extraction_jobs w jobId = None \<longrightarrow>
            res = remote_reply w jobId \<and>
            trace w' = trace w @ [DbSelect jobId, EngineGet jobId] \<and>
            jobResultsMap w' = jobResultsMap w) \<and>
         (extraction_jobs w jobId = Some row \<and> fileName (columns row) = name \<and> name \<noteq> [] \<longrightarrow>
            (bucket w (output_key jobId name) = Some obj \<and> Body obj = Json d \<longrightarrow>
               res = Inr \<lparr>s_job_id = jobId, s_status = Completed, s_file_url = Some [],
                          s_data = Some d, s_error = None\<rparr> \<and>
               trace w' = trace w @ [DbSelect jobId, S3Head (output_key jobId name),
                                     S3Get (output_key jobId name)] \<and>
               jobResultsMap w' = (jobResultsMap w)(jobId \<mapsto>
                 \<lparr>c_status = Completed, c_fileUrl = [], c_fileName = Some name,
                  c_data = Some d, c_error = None\<rparr>)) \<and>
            (bucket w (output_key jobId name) = None \<and>
             bucket w (legacy_key jobId name) = Some obj \<and> Body obj = Json d \<longrightarrow>
               res = Inr \<lparr>s_job_id = jobId, s_status = Completed, s_file_url = Some [],
                          s_data = Some d, s_error = None\<rparr> \<and>
               trace w' = trace w @ [DbSelect jobId, S3Head (output_key jobId name),
                                     S3Head (legacy_key jobId name),
                                     S3Get (legacy_key jobId name)] \<and>
               jobResultsMap w' = (jobResultsMap w)(jobId \<mapsto>
                 \<lparr>c_status = Completed, c_fileUrl = [], c_fileName = Some name,
                  c_data = Some d, c_error = None\<rparr>)) \<and>
            (bucket w (output_key jobId name) = None \<and>
             bucket w (legacy_key jobId name) = None \<longrightarrow>
               res = remote_reply w jobId \<and>
               trace w' = trace w @ [DbSelect jobId, S3Head (output_key jobId name),
                                     S3Head (legacy_key jobId name), EngineGet jobId] \<and>
               jobResultsMap w' = jobResultsMap w))"
proof (intro conjI impI)
  assume "extraction_jobs w jobId = None"
  from getExtractionStatus_no_record[OF assms(1,2) this assms(6)]
  show "res = remote_reply w jobId" "trace w' = trace w @ [DbSelect jobId, EngineGet jobId]"
    "jobResultsMap w' = jobResultsMap w"
    by simp_all
next
  assume r: "extraction_jobs w jobId = Some row \<and> fileName (columns row) = name \<and> name \<noteq> []"
    and b: "bucket w (output_key jobId name) = Some obj \<and> Body obj = Json d"
  from r b getExtractionStatus_encoded_hit[OF assms(1,2,3,4), of row obj d res w'] assms(6)
  show "res = Inr \<lparr>s_job_id = jobId, s_status = Completed, s_file_url = Some [],
                   s_data = Some d, s_error = None\<rparr>"
    "trace w' = trace w @ [DbSelect jobId, S3Head (output_key jobId name),
                           S3Get (output_key jobId name)]"
    "jobResultsMap w' = (jobResultsMap w)(jobId \<mapsto>
       \<lparr>c_status = Completed, c_fileUrl = [], c_fileName = Some name,
        c_data = Some d, c_error = None\<rparr>)"
    by (simp_all add: completed_reply_def blob_entry_def)
next
  assume r: "extraction_jobs w jobId = Some row \<and> fileName (columns row) = name \<and> name \<noteq> []"
    and b: "bucket w (output_key jobId name) = None \<and>
            bucket w (legacy_key jobId name) = Some obj \<and> Body obj = Json d"
  from r b getExtractionStatus_legacy_hit[OF assms(1,2,3,4,5), of row obj d res w'] assms(6)
  show "res = Inr \<lparr>s_job_id = jobId, s_status = Completed, s_file_url = Some [],
                   s_data = Some d, s_error = None\<rparr>"
    "trace w' = trace w @ [DbSelect jobId, S3Head (output_key jobId name),
                           S3Head (legacy_key jobId name), S3Get (legacy_key jobId name)]"
    "jobResultsMap w' = (jobResultsMap w)(jobId \<mapsto>
       \<lparr>c_status = Completed, c_fileUrl = [], c_fileName = Some name,
        c_data = Some d, c_error = None\<rparr>)"
    by (simp_all add: completed_reply_def blob_entry_def)
next
  assume r: "extraction_jobs w jobId = Some row \<and> fileName (columns row) = name \<and> name \<noteq> []"
    and b: "bucket w (output_key jobId name) = None \<and> bucket w (legacy_key jobId name) = None"
  from r b getExtractionStatus_no_blob[OF assms(1,2,3,4), of row res w'] assms(6)
  show "res = remote_reply w jobId"
    "trace w' = trace w @ [DbSelect jobId, S3Head (output_key jobId name),
                           S3Head (legacy_key jobId name), EngineGet jobId]"
    "jobResultsMap w' = jobResultsMap w"
    by simp_all
qed

theorem status_reconstruction_order_witness:
  "fst (getExtractionStatus ''job_1700000000000_k3x9q'' world_legacy) =
     Inr \<lparr>s_job_id = ''job_1700000000000_k3x9q'', s_status = Completed, s_file_url = Some [],
          s_data = Some result0, s_error = None\<rparr> \<and>
   trace (snd (getExtractionStatus ''job_1700000000000_k3x9q'' world_legacy)) =
     [DbSelect ''job_1700000000000_k3x9q'',
      S3Head ''output/job_1700000000000_k3x9q/my%20file.pdf.json'',
      S3Head ''output/job_1700000000000_k3x9q/my file.pdf.json'',
      S3Get ''output/job_1700000000000_k3x9q/my file.pdf.json''] \<and>
   fst (getExtractionStatus ''job_1700000000000_k3x9q'' world_restarted) =
     Inr \<lparr>s_job_id = ''job_1700000000000_k3x9q'', s_status = Completed, s_file_url = Some [],
          s_data = Some result0, s_error = None\<rparr> \<and>
   trace (snd (getExtractionStatus ''job_1700000000000_k3x9q'' world_restarted)) =
     [DbSelect ''job_1700000000000_k3x9q'',
      S3Head ''output/job_1700000000000_k3x9q/my%20file.pdf.json'',
      S3Get ''output/job_1700000000000_k3x9q/my%20file.pdf.json''] \<and>
   fst (getExtractionStatus ''job_1700000000000_k3x9q'' world_record_only) =
     Inl (BadRequestException ''Job not found'') \<and>
   trace (snd (getExtractionStatus ''job_1700000000000_k3x9q'' world_record_only)) =
     [DbSelect ''job_1700000000000_k3x9q'',
      S3Head ''output/job_1700000000000_k3x9q/my%20file.pdf.json'',
      S3Head ''output/job_1700000000000_k3x9q/my file.pdf.json'',
      EngineGet ''job_1700000000000_k3x9q''] \<and>
   fst (getExtractionStatus ''job_1700000000000_k3x9q'' world0) =
     Inl (BadRequestException ''Job not found'') \<and>
   trace (snd (getExtractionStatus ''job_1700000000000_k3x9q'' world0)) =
     [DbSelect ''job_1700000000000_k3x9q'', EngineGet ''job_1700000000000_k3x9q'']"
proof -
  note inst = status_reconstruction_order[where jobId = "''job_1700000000000_k3x9q''"
      and row = row0 and name = "''my file.pdf''" and obj = json0 and d = result0,
      OF _ _ _ _ _ pair_run]
  have "jobResultsMap world_legacy ''job_1700000000000_k3x9q'' = None"
    "jobResultsMap world_restarted ''job_1700000000000_k3x9q'' = None"
    "jobResultsMap world_record_only ''job_1700000000000_k3x9q'' = None"
    "jobResultsMap world0 ''job_1700000000000_k3x9q'' = None"
    by simp_all
  from inst[OF this(1)] inst[OF this(2)] inst[OF this(3)] inst[OF this(4)]
  show ?thesis by (simp add: keys_my_file)
qed

section \<open>A failed call to the engine\<close>

text \<open>
  C4, refuted as stated. The connection to the engine is refused and the error of the
  client has an empty message. \<^verbatim>\<open>startExtraction\<close> throws its typed error and the cache
  holds the job as \<^verbatim>\<open>failed\<close>, but \<^verbatim>\<open>getExtractionStatus\<close> returns \<^verbatim>\<open>failed\<close> with the empty
  string as its error. And a result is written for the job id afterwards: an edit of
  the failed job finds it in the cache, succeeds, and puts its data under
  \<^verbatim>\<open>output/{jobId}/unknown.json\<close>, where nothing was before.
\<close>

theorem failed_job_has_empty_error_and_gets_a_result_blob:
  "fst (extract_in world_engine_silent) =
     Inl (InternalServerErrorException
       ''Python extraction service is not running. Please start the API service on port 8000.'') \<and>
   fst (getExtractionStatus ''job_1700000000000_k3x9q'' (snd (extract_in world_engine_silent))) =
     Inr \<lparr>s_job_id = ''job_1700000000000_k3x9q'', s_status = Failed, s_file_url = Some [],
          s_data = None, s_error = Some []\<rparr> \<and>
   bucket (snd (extract_in world_engine_silent))
     ''output/job_1700000000000_k3x9q/unknown.json'' = None \<and>
   fst (updateExtractionResult ''job_1700000000000_k3x9q'' (Some result1)
          (snd (extract_in world_engine_silent))) =
     Inr \<lparr>u_success = True, u_message = ''Extraction result updated successfully''\<rparr> \<and>
   map_option Body
     (bucket (snd (updateExtractionResult ''job_1700000000000_k3x9q'' (Some result1)
                     (snd (extract_in world_engine_silent))))
        ''output/job_1700000000000_k3x9q/unknown.json'') = Some (Json result1)"
proof -
  let ?j = "''job_1700000000000_k3x9q''"
  let ?w = "snd (extract_in world_engine_silent)"
  note run = startExtraction_engine_fails[of world_engine_silent _ _ _ _ _ axios_silent]
  have thrown: "fst (extract_in world_engine_silent) =
     Inl (InternalServerErrorException
       ''Python extraction service is not running. Please start the API service on port 8000.'')"
    by (simp add: extract_in_def run extraction_exception_def axios_silent_def)
  have cached: "jobResultsMap ?w ?j =
      Some \<lparr>c_status = Failed, c_fileUrl = [], c_fileName = Some ''my file.pdf'',
            c_data = None, c_error = Some []\<rparr>"
    by (simp add: extract_in_def run axios_silent_def)
  have no_row: "extraction_jobs ?w ?j = None"
    and calls: "outcome ?w i = None" for i
    by (simp_all add: extract_in_def run)
  have before: "bucket ?w ''output/job_1700000000000_k3x9q/unknown.json'' = None"
    by (simp add: extract_in_def run keys_my_file)
  from updateExtractionResult_from_cache[OF no_row cached _ calls calls calls calls calls _
      pair_run, of result1]
  have "fst (updateExtractionResult ?j (Some result1) ?w) =
          Inr \<lparr>u_success = True, u_message = ''Extraction result updated successfully''\<rparr>"
    and "map_option Body
          (bucket (snd (updateExtractionResult ?j (Some result1) ?w))
             ''output/job_1700000000000_k3x9q/unknown.json'') = Some (Json result1)"
    by (simp_all add: output_key_def encode_unknown)
  with thrown before getExtractionStatus_hit[OF cached] show ?thesis
    by simp
qed

text \<open>
  C4, as amended. When the original is stored and the call to the engine then fails
  with an error \<open>e\<close> (a timeout, a refused connection, an error reply),
  \<^verbatim>\<open>startExtraction\<close> throws a typed error: a bad request with the detail of the reply
  when there is a reply, an internal error naming the refused connection or the timeout
  by the code of \<open>e\<close>, \<^verbatim>\<open>Document extraction failed\<close> otherwise. The cache then holds
  \<^verbatim>\<open>failed\<close> with the message of \<open>e\<close> as its error, whatever that message is, for the job
  id, and a following \<^verbatim>\<open>getExtractionStatus\<close> returns \<^verbatim>\<open>failed\<close> with that message, which is
  not empty when the message of \<open>e\<close> is not, and changes nothing. \<^verbatim>\<open>startExtraction\<close> writes
  one object to the bucket, the original: nothing is stored under the result key of
  the job, polling the status through the controller does not write to the bucket
  either, and the table is not touched.
\<close>

theorem engine_failure_is_recorded:
  assumes "outcome w 0 = None"
    and "engine_extract w \<lparr>form_file = buf, form_filename = name, form_contentType = mime,
           target_language = lang, preserve_names = bool_toString pn\<rparr> = Inl e"
    and "startExtraction buf name mime user lang pn w = (res, w')"
  shows "res = Inl (extraction_exception e) \<and>
         (\<forall>r. err_response e = Some r \<longrightarrow>
            res = Inl (BadRequestException (or_else (detail r) ''Extraction failed''))) \<and>
         (err_response e = None \<and> err_code e = Some ''ECONNREFUSED'' \<longrightarrow>
            res = Inl (InternalServerErrorException
              ''Python extraction service is not running. Please start the API service on port 8000.'')) \<and>
         (err_response e = None \<and>
          (err_code e = Some ''ETIMEDOUT'' \<or> err_code e = Some ''ECONNABORTED'') \<longrightarrow>
            res = Inl (InternalServerErrorException
              ''Request to Python service timed out. Please try again.'')) \<and>
         jobResultsMap w' (new_job_id w) =
           Some \<lparr>c_status = Failed, c_fileUrl = [], c_fileName = Some name, c_data = None,
                 c_error = Some (err_message e)\<rparr> \<and>
         getExtractionStatus (new_job_id w) w' =
           (Inr \<lparr>s_job_id = new_job_id w, s_status = Failed, s_file_url = Some [],
                 s_data = None, s_error = Some (err_message e)\<rparr>, w') \<and>
         (err_message e \<noteq> [] \<longrightarrow>
            (\<exists>st msg. getExtractionStatus (new_job_id w) w' = (Inr st, w') \<and>
               s_status st = Failed \<and> s_error st = Some msg \<and> msg \<noteq> [])) \<and>
         trace w' = trace w @ [S3Put (original_key (new_job_id w) name), EnginePost name] \<and>
         bucket w' = (bucket w)(original_key (new_job_id w) name \<mapsto>
           \<lparr>Body = buf, ContentType = mime,
            Metadata = [(''userId'', user), (''originalName'', name),
                        (''jobId'', new_job_id w)]\<rparr>) \<and>
         bucket w' (output_key (new_job_id w) name) = bucket w (output_key (new_job_id w) name) \<and>
         bucket (snd (controller_getExtractionStatus (new_job_id w) w')) = bucket w' \<and>
         extraction_jobs w' = extraction_jobs w"
proof -
  have cached: "jobResultsMap w' (new_job_id w) =
      Some \<lparr>c_status = Failed, c_fileUrl = [], c_fileName = Some name, c_data = None,
            c_error = Some (err_message e)\<rparr>"
    using assms(3) unfolding startExtraction_engine_fails[OF assms(1,2)] by auto
  have polled: "bucket (snd (controller_getExtractionStatus (new_job_id w) w')) = bucket w'"
    using controller_getExtractionStatus_cache[OF pair_run, of "new_job_id w" w']
    by (simp add: getExtractionStatus_hit[OF cached])
  show ?thesis
    using assms(3) polled unfolding startExtraction_engine_fails[OF assms(1,2)]
    by (auto simp: getExtractionStatus_hit keys_differ[symmetric] extraction_exception_def)
qed

theorem engine_failure_is_recorded_witness:
  "fst (extract_in world_engine_timeout) =
     Inl (InternalServerErrorException ''Request to Python service timed out. Please try again.'') \<and>
   jobResultsMap (snd (extract_in world_engine_timeout)) ''job_1700000000000_k3x9q'' =
     Some \<lparr>c_status = Failed, c_fileUrl = [], c_fileName = Some ''my file.pdf'',
           c_data = None, c_error = Some ''timeout of 600000ms exceeded''\<rparr> \<and>
   fst (getExtractionStatus ''job_1700000000000_k3x9q'' (snd (extract_in world_engine_timeout))) =
     Inr \<lparr>s_job_id = ''job_1700000000000_k3x9q'', s_status = Failed, s_file_url = Some [],
          s_data = None, s_error = Some ''timeout of 600000ms exceeded''\<rparr> \<and>
   trace (snd (extract_in world_engine_timeout)) =
     [S3Put ''originals/job_1700000000000_k3x9q/my%20file.pdf'', EnginePost ''my file.pdf''] \<and>
   bucket (snd (extract_in world_engine_timeout))
     ''output/job_1700000000000_k3x9q/my%20file.pdf.json'' = None \<and>
   fst (extract_in world_engine_refused) =
     Inl (InternalServerErrorException
       ''Python extraction service is not running. Please start the API service on port 8000.'') \<and>
   fst (extract_in world_engine_rejected) = Inl (BadRequestException ''Unsupported file type'')"
proof -
  note inst = engine_failure_is_recorded[where buf = "Raw ''%PDF-1.7''"
      and name = "''my file.pdf''" and mime = "''application/pdf''" and user = "''u1''"
      and lang = "''en''" and pn = True]
  have run: "startExtraction (Raw ''%PDF-1.7'') ''my file.pdf'' ''application/pdf'' ''u1'' ''en''
               True w = (fst (extract_in w), snd (extract_in w))" for w
    by (simp add: extract_in_def)
  have "outcome world_engine_timeout 0 = None" "outcome world_engine_refused 0 = None"
    "outcome world_engine_rejected 0 = None"
    by simp_all
  from inst[OF this(1) _ run, of axios_timeout] inst[OF this(2) _ run, of axios_refused]
       inst[OF this(3) _ run, of axios_rejected]
  show ?thesis
    by (simp add: original_key_def output_key_def encode_my_file axios_timeout_def
          axios_refused_def axios_rejected_def extraction_exception_def or_else_def truthy_def)
qed

section \<open>The edit is strict\<close>

text \<open>
  C5, refuted as stated. The process has restarted: the job is in the table and its
  result in the bucket, the cache is empty. An edit writes the new result to the bucket,
  the update of the record fails, and the edit is reported as failed; the record still
  holds the old result. The next \<^verbatim>\<open>getExtractionStatus\<close> nevertheless serves the new one,
  from the bucket.
\<close>

theorem failed_edit_is_served_after_restart:
  "result1 \<noteq> result0 \<and>
   jobResultsMap world_edit_db_down ''job_1700000000000_k3x9q'' = None \<and>
   fst (updateExtractionResult ''job_1700000000000_k3x9q'' (Some result1) world_edit_db_down) =
     Inl (BadRequestException
       ''Failed to update extraction result: Connection terminated unexpectedly'') \<and>
   map_option (result \<circ> columns)
     (extraction_jobs
        (snd (updateExtractionResult ''job_1700000000000_k3x9q'' (Some result1)
                world_edit_db_down)) ''job_1700000000000_k3x9q'') = Some (Some result0) \<and>
   fst (getExtractionStatus ''job_1700000000000_k3x9q''
          (snd (updateExtractionResult ''job_1700000000000_k3x9q'' (Some result1)
                  world_edit_db_down))) =
     Inr \<lparr>s_job_id = ''job_1700000000000_k3x9q'', s_status = Completed, s_file_url = Some [],
          s_data = Some result1, s_error = None\<rparr>"
proof -
  let ?j = "''job_1700000000000_k3x9q''"
  let ?run = "updateExtractionResult ?j (Some result1) world_edit_db_down"
  have row: "extraction_jobs world_edit_db_down ?j = Some row0" by simp
  note edit = updateExtractionResult_db_update_fails[OF row _ _ _ _ pair_run,
      of "''Connection terminated unexpectedly''" result1, simplified]
  have next_calls: "outcome (snd ?run) i = None" for i
    using updateExtractionResult_db_update_fails_next[OF row _ _ _ _ pair_run,
      of "''Connection terminated unexpectedly''" result1 i]
    by simp
  have miss: "jobResultsMap (snd ?run) ?j = None"
    using edit by simp
  have rec: "extraction_jobs (snd ?run) ?j = Some row0"
    using edit by simp
  have blob: "bucket (snd ?run) (output_key ?j (fileName (columns row0))) =
      Some \<lparr>Body = Json result1, ContentType = ''application/json'',
            Metadata = [(''jobId'', ?j), (''originalName'', ''my file.pdf''),
                        (''updated'', ''true'')]\<rparr>"
    using edit by (simp add: keys_my_file)
  have "fst (getExtractionStatus ?j (snd ?run)) = Inr (completed_reply ?j result1)"
    using getExtractionStatus_encoded_hit[OF miss next_calls next_calls next_calls rec _ blob _
        pair_run]
    by simp
  with edit results_differ show ?thesis
    by (simp add: completed_reply_def row0_def)
qed

text \<open>
  C5, as amended. \<^verbatim>\<open>updateExtractionResult\<close> is strict. The data of an edit is any JSON
  value; the check \<^verbatim>\<open>!body.data\<close> refuses the falsy ones with \<^verbatim>\<open>No data provided\<close> before
  anything is read or written, and lets every other value through (every object, so
  every extraction result: \<open>js_truthy_json_of\<close>). When the edit reports success, the data
  passed the check, the
  bucket holds the new result under the result key of the job, the record is
  \<^verbatim>\<open>completed\<close> with the new result, and so is the cache entry. When it fails it throws
  a bad request \<^verbatim>\<open>Failed to update extraction result: ...\<close> and leaves the cache as it
  was, so that a following \<^verbatim>\<open>getExtractionStatus\<close> returns the entry the cache held for
  the job before the edit, if it held one. In particular, a failed upload is reported
  and leaves the bucket and the table as they were, and when the upload goes through
  and the update of the record fails, the failure is reported although the bucket has
  the new result. With no record and no cache entry for the job, the failure is
  \<^verbatim>\<open>Job not found\<close> and nothing is written.
\<close>

theorem edit_is_strict:
  assumes "updateExtractionResult jobId body w = (res, w')"
  shows "(\<forall>ok. res = Inr ok \<longrightarrow>
            (\<exists>d row. body = Some d \<and> js_truthy d \<and> extraction_jobs w' jobId = Some row \<and>
               status (columns row) = Completed \<and> result (columns row) = Some d \<and>
               map_option Body (bucket w' (output_key jobId (fileName (columns row)))) =
                 Some (Json d) \<and>
               jobResultsMap w' = (jobResultsMap w)(jobId \<mapsto>
                 \<lparr>c_status = Completed, c_fileUrl = fileUrl (columns row),
                  c_fileName = Some (fileName (columns row)), c_data = Some d,
                  c_error = None\<rparr>))) \<and>
         (\<forall>e. res = Inl e \<longrightarrow>
            jobResultsMap w' = jobResultsMap w \<and>
            (\<exists>m. e = BadRequestException (''Failed to update extraction result: '' @ m)) \<and>
            (\<forall>c. jobResultsMap w jobId = Some c \<longrightarrow>
               getExtractionStatus jobId w' =
                 (Inr \<lparr>s_job_id = jobId, s_status = c_status c,
                       s_file_url = Some (c_fileUrl c), s_data = c_data c,
                       s_error = c_error c\<rparr>, w'))) \<and>
         (\<forall>d row m. body = Some d \<and> js_truthy d \<and> extraction_jobs w jobId = Some row \<and>
            outcome w 0 = None \<and> outcome w 1 = Some m \<longrightarrow>
            res = Inl (BadRequestException
                         (''Failed to update extraction result: '' @ ''Failed to upload file: ''
                          @ m)) \<and>
            bucket w' = bucket w \<and> extraction_jobs w' = extraction_jobs w) \<and>
         (\<forall>d row m. body = Some d \<and> js_truthy d \<and> extraction_jobs w jobId = Some row \<and>
            outcome w 0 = None \<and> outcome w 1 = None \<and> outcome w 2 = Some m \<longrightarrow>
            res = Inl (BadRequestException (''Failed to update extraction result: '' @ m)) \<and>
            map_option Body (bucket w' (output_key jobId (fileName (columns row)))) =
              Some (Json d) \<and>
            extraction_jobs w' = extraction_jobs w) \<and>
         (\<forall>d. body = Some d \<and> js_truthy d \<and> extraction_jobs w jobId = None \<and>
            jobResultsMap w jobId = None \<and> outcome w 0 = None \<longrightarrow>
            res = Inl (BadRequestException
                         ''Failed to update extraction result: Job not found'') \<and>
            bucket w' = bucket w \<and> extraction_jobs w' = extraction_jobs w) \<and>
         (no_data body \<longrightarrow>
            res = Inl (BadRequestException
                         ''Failed to update extraction result: No data provided'') \<and>
            bucket w' = bucket w \<and> extraction_jobs w' = extraction_jobs w \<and>
            trace w' = trace w)"
proof (intro conjI allI impI)
  fix ok assume "res = Inr ok"
  with updateExtractionResult_Inr[of jobId body w ok w'] assms
  show "\<exists>d row. body = Some d \<and> js_truthy d \<and> extraction_jobs w' jobId = Some row \<and>
               status (columns row) = Completed \<and> result (columns row) = Some d \<and>
               map_option Body (bucket w' (output_key jobId (fileName (columns row)))) =
                 Some (Json d) \<and>
               jobResultsMap w' = (jobResultsMap w)(jobId \<mapsto>
                 \<lparr>c_status = Completed, c_fileUrl = fileUrl (columns row),
                  c_fileName = Some (fileName (columns row)), c_data = Some d,
                  c_error = None\<rparr>)"
    by fastforce
next
  fix e assume e: "res = Inl e"
  with updateExtractionResult_Inl[of jobId body w e w'] assms
  show same: "jobResultsMap w' = jobResultsMap w"
    and "\<exists>m. e = BadRequestException (''Failed to update extraction result: '' @ m)"
    by simp_all
  fix c assume "jobResultsMap w jobId = Some c"
  with same have "jobResultsMap w' jobId = Some c" by simp
  then show "getExtractionStatus jobId w' =
                 (Inr \<lparr>s_job_id = jobId, s_status = c_status c,
                       s_file_url = Some (c_fileUrl c), s_data = c_data c,
                       s_error = c_error c\<rparr>, w')"
    by (rule getExtractionStatus_hit)
next
  fix d row m
  assume h: "body = Some d \<and> js_truthy d \<and> extraction_jobs w jobId = Some row \<and>
            outcome w 0 = None \<and> outcome w 1 = Some m"
  with updateExtractionResult_upload_fails[of w jobId row m d res w'] assms
  show "res = Inl (BadRequestException
                     (''Failed to update extraction result: '' @ ''Failed to upload file: ''
                      @ m))"
    "bucket w' = bucket w" "extraction_jobs w' = extraction_jobs w"
    by simp_all
next
  fix d row m
  assume h: "body = Some d \<and> js_truthy d \<and> extraction_jobs w jobId = Some row \<and>
            outcome w 0 = None \<and> outcome w 1 = None \<and> outcome w 2 = Some m"
  with updateExtractionResult_db_update_fails[of w jobId row m d res w'] assms
  show "res = Inl (BadRequestException (''Failed to update extraction result: '' @ m))"
    "map_option Body (bucket w' (output_key jobId (fileName (columns row)))) = Some (Json d)"
    "extraction_jobs w' = extraction_jobs w"
    by simp_all
next
  fix d
  assume h: "body = Some d \<and> js_truthy d \<and> extraction_jobs w jobId = None \<and>
            jobResultsMap w jobId = None \<and> outcome w 0 = None"
  with updateExtractionResult_not_found[of w jobId d res w'] assms
  show "res = Inl (BadRequestException ''Failed to update extraction result: Job not found'')"
    "bucket w' = bucket w" "extraction_jobs w' = extraction_jobs w"
    by simp_all
next
  assume "no_data body"
  with updateExtractionResult_no_data[of body jobId w res w'] assms
  show "res = Inl (BadRequestException
                     ''Failed to update extraction result: No data provided'')"
    "bucket w' = bucket w" "extraction_jobs w' = extraction_jobs w" "trace w' = trace w"
    by simp_all
qed

theorem edit_is_strict_witness:
  "fst (updateExtractionResult ''job_1700000000000_k3x9q'' (Some result1) world_cached_db_down) =
     Inl (BadRequestException
       ''Failed to update extraction result: Connection terminated unexpectedly'') \<and>
   map_option Body
     (bucket (snd (updateExtractionResult ''job_1700000000000_k3x9q'' (Some result1)
                     world_cached_db_down))
        ''output/job_1700000000000_k3x9q/my%20file.pdf.json'') = Some (Json result1) \<and>
   fst (getExtractionStatus ''job_1700000000000_k3x9q''
          (snd (updateExtractionResult ''job_1700000000000_k3x9q'' (Some result1)
                  world_cached_db_down))) =
     Inr \<lparr>s_job_id = ''job_1700000000000_k3x9q'', s_status = Completed,
          s_file_url = Some
            ''https://udayam-files.t3.storage.dev/originals/job_1700000000000_k3x9q/my%20file.pdf'',
          s_data = Some result0, s_error = None\<rparr> \<and>
   fst (updateExtractionResult ''job_1700000000000_k3x9q'' (Some result1) world_edit_upload_down) =
     Inl (BadRequestException
       ''Failed to update extraction result: Failed to upload file: connect ETIMEDOUT'') \<and>
   fst (updateExtractionResult ''job_1700000000000_k3x9q'' (Some result1) world0) =
     Inl (BadRequestException ''Failed to update extraction result: Job not found'') \<and>
   fst (updateExtractionResult ''job_1700000000000_k3x9q'' (Some result1) world_restarted) =
     Inr \<lparr>u_success = True, u_message = ''Extraction result updated successfully''\<rparr> \<and>
   map_option c_data
     (jobResultsMap
        (snd (updateExtractionResult ''job_1700000000000_k3x9q'' (Some result1) world_restarted))
        ''job_1700000000000_k3x9q'') = Some (Some result1)"
proof -
  let ?j = "''job_1700000000000_k3x9q''"
  note down = edit_is_strict[of ?j "Some result1" world_cached_db_down, OF pair_run]
  note upload = edit_is_strict[of ?j "Some result1" world_edit_upload_down, OF pair_run]
  note none = edit_is_strict[of ?j "Some result1" world0, OF pair_run]
  note good = edit_is_strict[of ?j "Some result1" world_restarted, OF pair_run]
  from down have fail:
    "fst (updateExtractionResult ?j (Some result1) world_cached_db_down) =
       Inl (BadRequestException
         ''Failed to update extraction result: Connection terminated unexpectedly'')"
    and blob: "map_option Body
       (bucket (snd (updateExtractionResult ?j (Some result1) world_cached_db_down))
          (output_key ?j (fileName (columns row0)))) = Some (Json result1)"
    by simp_all
  from down fail have
    "getExtractionStatus ?j (snd (updateExtractionResult ?j (Some result1) world_cached_db_down)) =
       (Inr \<lparr>s_job_id = ?j, s_status = c_status entry0, s_file_url = Some (c_fileUrl entry0),
             s_data = c_data entry0, s_error = c_error entry0\<rparr>,
        snd (updateExtractionResult ?j (Some result1) world_cached_db_down))"
    by simp
  moreover from upload have
    "fst (updateExtractionResult ?j (Some result1) world_edit_upload_down) =
       Inl (BadRequestException
         ''Failed to update extraction result: Failed to upload file: connect ETIMEDOUT'')"
    by simp
  moreover from none have
    "fst (updateExtractionResult ?j (Some result1) world0) =
       Inl (BadRequestException ''Failed to update extraction result: Job not found'')"
    by simp
  moreover have ok: "fst (updateExtractionResult ?j (Some result1) world_restarted) =
       Inr \<lparr>u_success = True, u_message = ''Extraction result updated successfully''\<rparr>"
    using updateExtractionResult_in_table[of world_restarted ?j row0 result1, OF _ _ _ _ _ pair_run]
    by simp
  moreover from good ok have
    "map_option c_data
       (jobResultsMap (snd (updateExtractionResult ?j (Some result1) world_restarted)) ?j) =
     Some (Some result1)"
    by auto
  ultimately show ?thesis using fail blob
    by (simp add: entry0_def keys_my_file)
qed

section \<open>The record reconstructed from the cache\<close>

text \<open>
  C6, on the code. The cache holds the job with its file name \<^verbatim>\<open>my file.pdf\<close> and its
  file URL, the table has no record of it (the state \<^verbatim>\<open>startExtraction\<close> leaves when the
  record is not created). The edit succeeds; the record it creates has the file URL of
  the cache entry, and the file name \<^verbatim>\<open>unknown\<close>. The new result goes to
  \<^verbatim>\<open>output/{jobId}/unknown.json\<close>, the result under the key of the real file name stays as
  it was, and the cache entry now has the file name \<^verbatim>\<open>unknown\<close>.
\<close>

theorem reconstructed_record_has_unknown_file_name:
  "map_option c_fileName (jobResultsMap after_extraction ''job_1700000000000_k3x9q'') =
     Some (Some ''my file.pdf'') \<and>
   extraction_jobs after_extraction ''job_1700000000000_k3x9q'' = None \<and>
   fst (updateExtractionResult ''job_1700000000000_k3x9q'' (Some result1) after_extraction) =
     Inr \<lparr>u_success = True, u_message = ''Extraction result updated successfully''\<rparr> \<and>
   map_option columns
     (extraction_jobs
        (snd (updateExtractionResult ''job_1700000000000_k3x9q'' (Some result1) after_extraction))
        ''job_1700000000000_k3x9q'') =
     Some \<lparr>jid = ''job_1700000000000_k3x9q'', fileName = ''unknown'',
           fileUrl = ''https://udayam-files.t3.storage.dev/originals/job_1700000000000_k3x9q/my%20file.pdf'',
           status = Completed, createdAt = 1700000000000, updatedAt = 1700000000000,
           error = None, result = Some result1\<rparr> \<and>
   map_option Body
     (bucket (snd (updateExtractionResult ''job_1700000000000_k3x9q'' (Some result1)
                     after_extraction))
        ''output/job_1700000000000_k3x9q/unknown.json'') = Some (Json result1) \<and>
   map_option Body
     (bucket (snd (updateExtractionResult ''job_1700000000000_k3x9q'' (Some result1)
                     after_extraction))
        ''output/job_1700000000000_k3x9q/my%20file.pdf.json'') = Some (Json result0) \<and>
   map_option c_fileName
     (jobResultsMap
        (snd (updateExtractionResult ''job_1700000000000_k3x9q'' (Some result1) after_extraction))
        ''job_1700000000000_k3x9q'') = Some (Some ''unknown'')"
proof -
  let ?j = "''job_1700000000000_k3x9q''"
  have c: "jobResultsMap after_extraction ?j = Some entry0"
    and r: "extraction_jobs after_extraction ?j = None"
    and j: "?j \<noteq> []"
    by simp_all
  from updateExtractionResult_from_cache[OF r c j _ _ _ _ _ _ pair_run, of result1] c r
  show ?thesis
    by (simp add: output_key_def encode_unknown entry0_def json0_def)
qed

section \<open>The job record is written best-effort\<close>

text \<open>
  C7. Whenever \<^verbatim>\<open>startExtraction\<close> succeeds with a response, \<^verbatim>\<open>extractDocument\<close> returns that
  response, whatever the insert of the job record does: the response is fixed before
  the insert (job id, URL of the original, result of the engine). When the insert
  throws (a fault of the database, or a record that exists already), the table is
  unchanged and the only trace of the failure is a warning in the log; when it goes
  through, the record is created. The cache and the bucket are as
  \<^verbatim>\<open>startExtraction\<close> left them.
\<close>

theorem durable_write_is_best_effort:
  assumes "startExtraction (file_buffer f) (originalname f) (mimetype f)
             (or_else user ''test-user'') (or_else (dto_target_language dto) ''en'')
             (dto_preserve_names dto \<noteq> Some False) w = (Inr r, w1)"
    and "extractDocument (Some f) dto user w = (res, w2)"
  shows "res = Inr r \<and>
         (\<exists>d. r = \<lparr>success = True, message = ''Extraction completed'',
                   job_id = Some (new_job_id w),
                   file_url = Some (object_url w (original_key (new_job_id w) (originalname f))),
                   data = Some d\<rparr>) \<and>
         jobResultsMap w2 = jobResultsMap w1 \<and> bucket w2 = bucket w1 \<and>
         trace w2 = trace w1 @ [DbInsert (new_job_id w)] \<and>
         (\<forall>m. outcome w1 0 = Some m \<longrightarrow>
            extraction_jobs w2 = extraction_jobs w1 \<and>
            logged w2 = logged w1 @
              [(Warn, ''Failed to create job record in database: '' @ m)]) \<and>
         (outcome w1 0 = None \<and> extraction_jobs w1 (new_job_id w) \<noteq> None \<longrightarrow>
            extraction_jobs w2 = extraction_jobs w1 \<and>
            logged w2 = logged w1 @
              [(Warn, ''Failed to create job record in database: '' @ duplicate_key)]) \<and>
         (outcome w1 0 = None \<and> extraction_jobs w1 (new_job_id w) = None \<longrightarrow>
            logged w2 = logged w1 \<and>
            extraction_jobs w2 = (extraction_jobs w1)(new_job_id w \<mapsto>
              \<lparr>userId = or_else user ''test-user'',
               columns = \<lparr>jid = new_job_id w, fileName = originalname f,
                          fileUrl = or_else (file_url r) [], status = Pending,
                          createdAt = clock w1, updatedAt = clock w1, error = None,
                          result = None\<rparr>\<rparr>))"
  using extractDocument_after_success[OF assms] startExtraction_Inr[OF assms(1)]
  by blast

theorem durable_write_is_best_effort_witness:
  "outcome world_db_down 2 = Some ''Connection terminated unexpectedly'' \<and>
   fst (extractDocument (Some file0) dto0 (Some ''u1'') world_db_down) = Inr response0 \<and>
   fst (extractDocument (Some file0) dto0 (Some ''u1'') world0) = Inr response0 \<and>
   extraction_jobs (snd (extractDocument (Some file0) dto0 (Some ''u1'') world_db_down)) =
     Map.empty \<and>
   logged (snd (extractDocument (Some file0) dto0 (Some ''u1'') world_db_down)) =
     [(Warn, ''Failed to create job record in database: Connection terminated unexpectedly'')] \<and>
   map_option (status \<circ> columns)
     (extraction_jobs (snd (extractDocument (Some file0) dto0 (Some ''u1'') world0))
        ''job_1700000000000_k3x9q'') = Some Pending"
proof -
  let ?start = "\<lambda>w. startExtraction (file_buffer file0) (originalname file0) (mimetype file0)
             (or_else (Some ''u1'') ''test-user'') (or_else (dto_target_language dto0) ''en'')
             (dto_preserve_names dto0 \<noteq> Some False) w"
  have down: "?start world_db_down = (Inr response0, snd (?start world_db_down))"
    by (simp add: file0_def dto0_def or_else_def truthy_def startExtraction_ok response0_def
          keys_my_file)
  have up: "?start world0 = (Inr response0, snd (?start world0))"
    by (simp add: file0_def dto0_def or_else_def truthy_def startExtraction_ok response0_def
          keys_my_file object_url_world0)
  have w1_down: "outcome (snd (?start world_db_down)) 0 =
      Some ''Connection terminated unexpectedly''"
    "extraction_jobs (snd (?start world_db_down)) = Map.empty"
    "logged (snd (?start world_db_down)) = []"
    by (simp_all add: file0_def dto0_def or_else_def truthy_def startExtraction_ok)
  have w1_up: "outcome (snd (?start world0)) 0 = None"
    "extraction_jobs (snd (?start world0)) = Map.empty"
    by (simp_all add: file0_def dto0_def or_else_def truthy_def startExtraction_ok)
  from durable_write_is_best_effort[OF down pair_run]
       durable_write_is_best_effort[OF up pair_run] w1_down w1_up
  show ?thesis by simp
qed

section \<open>Idempotent status lookups\<close>

text \<open>
  C8. When \<^verbatim>\<open>getExtractionStatus\<close> has answered for a job and the cache holds the job
  afterwards (it held it before, or the blob fallback of this very call stored it), the
  next call returns the same answer and leaves the state as it is: it makes no call to
  S3, nor to any other collaborator.
\<close>

theorem status_is_idempotent_once_cached:
  assumes "getExtractionStatus jobId w = (Inr r, w1)"
    and "jobResultsMap w1 jobId \<noteq> None"
  shows "getExtractionStatus jobId w1 = (Inr r, w1) \<and>
         trace (snd (getExtractionStatus jobId w1)) = trace w1"
proof (cases "jobResultsMap w jobId")
  case (Some c)
  with assms(1) show ?thesis by (auto simp: getExtractionStatus_hit)
next
  case None
  from getExtractionStatus_miss_effect[OF None assms(1)] assms(2) None
  obtain d n where "r = completed_reply jobId d"
    "jobResultsMap w1 = (jobResultsMap w)(jobId \<mapsto> blob_entry n d)"
    by auto
  then show ?thesis
    by (simp add: getExtractionStatus_hit[of w1 jobId "blob_entry n d"] blob_entry_def
          completed_reply_def)
qed

theorem status_is_idempotent_once_cached_witness:
  "fst (getExtractionStatus ''job_1700000000000_k3x9q'' world_restarted) =
     Inr \<lparr>s_job_id = ''job_1700000000000_k3x9q'', s_status = Completed, s_file_url = Some [],
          s_data = Some result0, s_error = None\<rparr> \<and>
   getExtractionStatus ''job_1700000000000_k3x9q''
     (snd (getExtractionStatus ''job_1700000000000_k3x9q'' world_restarted)) =
     (Inr \<lparr>s_job_id = ''job_1700000000000_k3x9q'', s_status = Completed, s_file_url = Some [],
           s_data = Some result0, s_error = None\<rparr>,
      snd (getExtractionStatus ''job_1700000000000_k3x9q'' world_restarted)) \<and>
   trace (snd (getExtractionStatus ''job_1700000000000_k3x9q''
                 (snd (getExtractionStatus ''job_1700000000000_k3x9q'' world_restarted)))) =
     [DbSelect ''job_1700000000000_k3x9q'',
      S3Head ''output/job_1700000000000_k3x9q/my%20file.pdf.json'',
      S3Get ''output/job_1700000000000_k3x9q/my%20file.pdf.json''] \<and>
   getExtractionStatus ''job_1700000000000_k3x9q'' after_extraction =
     (Inr \<lparr>s_job_id = ''job_1700000000000_k3x9q'', s_status = Completed,
           s_file_url = Some
             ''https://udayam-files.t3.storage.dev/originals/job_1700000000000_k3x9q/my%20file.pdf'',
           s_data = Some result0, s_error = None\<rparr>, after_extraction)"
proof -
  let ?j = "''job_1700000000000_k3x9q''"
  have miss: "jobResultsMap world_restarted ?j = None" by simp
  have row: "extraction_jobs world_restarted ?j = Some row0" by simp
  have blob: "bucket world_restarted (output_key ?j (fileName (columns row0))) = Some json0"
    by (simp add: keys_my_file)
  note first = getExtractionStatus_encoded_hit[OF miss _ _ _ row _ blob _ pair_run, simplified]
  have run: "getExtractionStatus ?j world_restarted =
      (Inr (completed_reply ?j result0), snd (getExtractionStatus ?j world_restarted))"
    using first by (simp add: prod_eq_iff)
  have warm: "jobResultsMap (snd (getExtractionStatus ?j world_restarted)) ?j \<noteq> None"
    using first by simp
  have hit: "getExtractionStatus ?j after_extraction =
      (Inr \<lparr>s_job_id = ?j, s_status = c_status entry0, s_file_url = Some (c_fileUrl entry0),
            s_data = c_data entry0, s_error = c_error entry0\<rparr>, after_extraction)"
    by (simp add: getExtractionStatus_hit)
  have warm': "jobResultsMap after_extraction ?j \<noteq> None" by simp
  from status_is_idempotent_once_cached[OF run warm]
       status_is_idempotent_once_cached[OF hit warm'] first
  show ?thesis
    by (simp add: completed_reply_def entry0_def keys_my_file)
qed

section \<open>The keys in the bucket\<close>

text \<open>
  The keys the core uses for a job that has its record in the table. A successful \<^verbatim>\<open>startExtraction\<close> puts the original under
  \<^verbatim>\<open>originals/{jobId}/{encodeURIComponent(fileName)}\<close> and the result under
  \<^verbatim>\<open>output/{jobId}/{encodeURIComponent(fileName)}.json\<close>, and makes no other call to S3. A
  successful edit of a job that is in the table puts the new result under
  \<^verbatim>\<open>output/{jobId}/{encodeURIComponent(fileName)}.json\<close>, with the file name of the
  record. On a cache miss, for a job whose record has a file name and whose result is
  not in the bucket, \<^verbatim>\<open>getExtractionStatus\<close> asks S3 for that key and then for the legacy
  key \<^verbatim>\<open>output/{jobId}/{fileName}.json\<close>, and for no other.
\<close>

lemma keys_with_a_record:
  "(outcome w 0 = None \<and> outcome w 1 = None \<and>
    engine_extract w \<lparr>form_file = buf, form_filename = name, form_contentType = mime,
      target_language = lang, preserve_names = bool_toString pn\<rparr> = Inr d \<and> d \<noteq> JNull \<longrightarrow>
      trace (snd (startExtraction buf name mime user lang pn w)) =
        trace w @ [S3Put (''originals/'' @ new_job_id w @ ''/'' @ encodeURIComponent name),
                   EnginePost name,
                   S3Put (''output/'' @ new_job_id w @ ''/'' @ encodeURIComponent name
                          @ ''.json'')] \<and>
      map_option Body
        (bucket (snd (startExtraction buf name mime user lang pn w))
           (''originals/'' @ new_job_id w @ ''/'' @ encodeURIComponent name)) = Some buf \<and>
      map_option Body
        (bucket (snd (startExtraction buf name mime user lang pn w))
           (''output/'' @ new_job_id w @ ''/'' @ encodeURIComponent name @ ''.json'')) =
        Some (Json d)) \<and>
   (extraction_jobs w jobId = Some row \<and> js_truthy d' \<and>
    outcome w 0 = None \<and> outcome w 1 = None \<and> outcome w 2 = None \<longrightarrow>
      trace (snd (updateExtractionResult jobId (Some d') w)) =
        trace w @ [DbSelect jobId,
                   S3Put (''output/'' @ jobId @ ''/''
                          @ encodeURIComponent (fileName (columns row)) @ ''.json''),
                   DbUpdate jobId]) \<and>
   (jobResultsMap w jobId = None \<and> extraction_jobs w jobId = Some row \<and>
    fileName (columns row) \<noteq> [] \<and>
    outcome w 0 = None \<and> outcome w 1 = None \<and> outcome w 2 = None \<and>
    bucket w (''output/'' @ jobId @ ''/'' @ encodeURIComponent (fileName (columns row))
              @ ''.json'') = None \<and>
    bucket w (''output/'' @ jobId @ ''/'' @ fileName (columns row) @ ''.json'') = None \<longrightarrow>
      trace (snd (getExtractionStatus jobId w)) =
        trace w @ [DbSelect jobId,
                   S3Head (''output/'' @ jobId @ ''/''
                           @ encodeURIComponent (fileName (columns row)) @ ''.json''),
                   S3Head (''output/'' @ jobId @ ''/'' @ fileName (columns row) @ ''.json''),
                   EngineGet jobId])"
proof (intro conjI impI)
  assume h: "outcome w 0 = None \<and> outcome w 1 = None \<and>
    engine_extract w \<lparr>form_file = buf, form_filename = name, form_contentType = mime,
      target_language = lang, preserve_names = bool_toString pn\<rparr> = Inr d \<and> d \<noteq> JNull"
  then have run: "startExtraction buf name mime user lang pn w =
     (Inr \<lparr>success = True, message = ''Extraction completed'', job_id = Some (new_job_id w),
           file_url = Some (object_url w (original_key (new_job_id w) name)),
           data = Some d\<rparr>,
      (sent (S3Put (output_key (new_job_id w) name))
         (sent (S3Put (original_key (new_job_id w) name)) w))
        \<lparr>bucket := (bucket w)
           (original_key (new_job_id w) name \<mapsto>
              \<lparr>Body = buf, ContentType = mime,
               Metadata = [(''userId'', user), (''originalName'', name),
                           (''jobId'', new_job_id w)]\<rparr>,
            output_key (new_job_id w) name \<mapsto>
              \<lparr>Body = Json d, ContentType = ''application/json'',
               Metadata = [(''userId'', user), (''originalName'', name),
                           (''jobId'', new_job_id w)]\<rparr>),
         trace := trace w @ [S3Put (original_key (new_job_id w) name), EnginePost name,
                             S3Put (output_key (new_job_id w) name)],
         jobResultsMap := (jobResultsMap w)(new_job_id w \<mapsto>
           \<lparr>c_status = Completed,
            c_fileUrl = object_url w (original_key (new_job_id w) name),
            c_fileName = Some name, c_data = Some d, c_error = None\<rparr>)\<rparr>)"
    by (intro startExtraction_ok) simp_all
  show "trace (snd (startExtraction buf name mime user lang pn w)) =
        trace w @ [S3Put (''originals/'' @ new_job_id w @ ''/'' @ encodeURIComponent name),
                   EnginePost name,
                   S3Put (''output/'' @ new_job_id w @ ''/'' @ encodeURIComponent name
                          @ ''.json'')]"
    by (simp add: run original_key_def output_key_def)
  show "map_option Body
        (bucket (snd (startExtraction buf name mime user lang pn w))
           (''originals/'' @ new_job_id w @ ''/'' @ encodeURIComponent name)) = Some buf"
    using keys_differ(1)[of "new_job_id w" name "new_job_id w" name]
    by (simp add: run original_key_def output_key_def)
  show "map_option Body
        (bucket (snd (startExtraction buf name mime user lang pn w))
           (''output/'' @ new_job_id w @ ''/'' @ encodeURIComponent name @ ''.json'')) =
        Some (Json d)"
    by (simp add: run original_key_def output_key_def)
next
  assume h: "extraction_jobs w jobId = Some row \<and> js_truthy d' \<and>
    outcome w 0 = None \<and> outcome w 1 = None \<and> outcome w 2 = None"
  with updateExtractionResult_in_table[of w jobId row d', OF _ _ _ _ _ pair_run]
  show "trace (snd (updateExtractionResult jobId (Some d') w)) =
        trace w @ [DbSelect jobId,
                   S3Put (''output/'' @ jobId @ ''/''
                          @ encodeURIComponent (fileName (columns row)) @ ''.json''),
                   DbUpdate jobId]"
    by (simp add: output_key_def)
next
  assume h: "jobResultsMap w jobId = None \<and> extraction_jobs w jobId = Some row \<and>
    fileName (columns row) \<noteq> [] \<and>
    outcome w 0 = None \<and> outcome w 1 = None \<and> outcome w 2 = None \<and>
    bucket w (''output/'' @ jobId @ ''/'' @ encodeURIComponent (fileName (columns row))
              @ ''.json'') = None \<and>
    bucket w (''output/'' @ jobId @ ''/'' @ fileName (columns row) @ ''.json'') = None"
  with getExtractionStatus_no_blob[of w jobId row, OF _ _ _ _ _ _ _ _ pair_run]
  show "trace (snd (getExtractionStatus jobId w)) =
        trace w @ [DbSelect jobId,
                   S3Head (''output/'' @ jobId @ ''/''
                           @ encodeURIComponent (fileName (columns row)) @ ''.json''),
                   S3Head (''output/'' @ jobId @ ''/'' @ fileName (columns row) @ ''.json''),
                   EngineGet jobId]"
    by (simp add: output_key_def legacy_key_def)
qed

text \<open>
  C9, on the code. \<^verbatim>\<open>my file.pdf\<close> has been extracted: its original is under
  \<^verbatim>\<open>originals/{jobId}/my%20file.pdf\<close>, its result under \<^verbatim>\<open>output/{jobId}/my%20file.pdf.json\<close>,
  the cache holds the job with that file name, and the table has no record of it. The
  edit of the job then succeeds and writes its result to \<^verbatim>\<open>output/{jobId}/unknown.json\<close>,
  which is not the key of the file name of the job: the record that the edit creates
  from the cache entry has the file name \<^verbatim>\<open>unknown\<close>.
\<close>

theorem edit_without_record_writes_unknown_key:
  "map_option c_fileName (jobResultsMap after_extraction ''job_1700000000000_k3x9q'') =
     Some (Some ''my file.pdf'') \<and>
   output_key ''job_1700000000000_k3x9q'' ''my file.pdf'' =
     ''output/job_1700000000000_k3x9q/my%20file.pdf.json'' \<and>
   fst (updateExtractionResult ''job_1700000000000_k3x9q'' (Some result1) after_extraction) =
     Inr \<lparr>u_success = True, u_message = ''Extraction result updated successfully''\<rparr> \<and>
   trace (snd (updateExtractionResult ''job_1700000000000_k3x9q'' (Some result1)
                 after_extraction)) =
     [S3Put ''originals/job_1700000000000_k3x9q/my%20file.pdf'', EnginePost ''my file.pdf'',
      S3Put ''output/job_1700000000000_k3x9q/my%20file.pdf.json'',
      DbSelect ''job_1700000000000_k3x9q'', DbInsert ''job_1700000000000_k3x9q'',
      DbSelect ''job_1700000000000_k3x9q'',
      S3Put ''output/job_1700000000000_k3x9q/unknown.json'',
      DbUpdate ''job_1700000000000_k3x9q'']"
proof -
  let ?j = "''job_1700000000000_k3x9q''"
  have c: "jobResultsMap after_extraction ?j = Some entry0"
    and r: "extraction_jobs after_extraction ?j = None"
    and o: "outcome after_extraction i = None" for i
    by simp_all
  from updateExtractionResult_from_cache[OF r c _ o o o o o _ pair_run, of result1] c
  show ?thesis
    by (simp add: output_key_def encode_unknown encode_my_file entry0_def)
qed

section \<open>Only terminal entries in the cache\<close>




end
